theory Spec2Isabelle
  imports Main "HOL-Library.AList"
begin

section \<open>The JavaScript fragment the adapters run on\<close>

text \<open>
  The adapters and the registry receive a payload of TypeScript type \<open>unknown\<close>: a decoded
  JSON value, or \<open>undefined\<close>. The casts to the payload interfaces are not checked when the
  program runs, so every field read in the source is a read on an arbitrary value, and the
  model keeps it so.

  Scope of the fragment:
  \<^item> a string is a list of code units; a \<open>char\<close> stands for a code unit below 256;
  \<^item> a number is an integer or NaN; the arithmetic of the model is exact, and agrees with
    the machine's doubles for magnitudes below \<open>2 ^ 53\<close>;
  \<^item> an object is the list of its own properties in enumeration order, each name
    occurring once; the names the source reads are never names of members of the built-in
    prototypes, and the lookup tables of the adapters are modelled for keys that are not
    such names either;
  \<^item> every exception of the fragment is a TypeError; its message is kept abstract.
\<close>

datatype jsval =
    JUndefined
  | JNull
  | JBool bool
  | JNum int
  | JNaN
  | JStr string
  | JArr "jsval list"
  | JObj "(string \<times> jsval) list"

datatype js_exception =
    ReadOfNullish jsval string  \<comment> \<open>a property read on \<open>undefined\<close> or \<open>null\<close>\<close>
  | NotAFunction string  \<comment> \<open>a call of a property that is not callable\<close>
  | NoPrimitiveValue  \<comment> \<open>neither \<open>toString\<close> nor \<open>valueOf\<close> yields a primitive\<close>

definition bindE :: "'e + 'a \<Rightarrow> ('a \<Rightarrow> 'e + 'b) \<Rightarrow> 'e + 'b" where
  "bindE m f = (case m of Inl e \<Rightarrow> Inl e | Inr x \<Rightarrow> f x)"

subsection \<open>Tests on values\<close>

definition nullish :: "jsval \<Rightarrow> bool" where
  "nullish v = (v = JUndefined \<or> v = JNull)"

text \<open>The truth value of a value in a condition, under \<open>!\<close>, \<open>&&\<close> and \<open>||\<close>.\<close>

fun truthy :: "jsval \<Rightarrow> bool" where
  "truthy JUndefined = False"
| "truthy JNull = False"
| "truthy (JBool b) = b"
| "truthy (JNum n) = (n \<noteq> 0)"
| "truthy JNaN = False"
| "truthy (JStr s) = (s \<noteq> [])"
| "truthy (JArr xs) = True"
| "truthy (JObj kvs) = True"

definition js_or :: "jsval \<Rightarrow> jsval \<Rightarrow> jsval" where
  \<comment> \<open>\<open>a || b\<close>, for a right operand that cannot throw\<close>
  "js_or a b = (if truthy a then a else b)"

fun js_typeof :: "jsval \<Rightarrow> string" where
  "js_typeof JUndefined = ''undefined''"
| "js_typeof JNull = ''object''"
| "js_typeof (JBool b) = ''boolean''"
| "js_typeof (JNum n) = ''number''"
| "js_typeof JNaN = ''number''"
| "js_typeof (JStr s) = ''string''"
| "js_typeof (JArr xs) = ''object''"
| "js_typeof (JObj kvs) = ''object''"

fun isArray :: "jsval \<Rightarrow> bool" where
  "isArray (JArr xs) = True"
| "isArray v = False"

text \<open>
  The private \<open>isObject\<close> of each adapter:
  \<open>typeof value === 'object' && value !== null && !Array.isArray(value)\<close>.
\<close>

definition isObject :: "jsval \<Rightarrow> bool" where
  "isObject v = (js_typeof v = ''object'' \<and> v \<noteq> JNull \<and> \<not> isArray v)"

subsection \<open>Property reads\<close>

definition own_property :: "(string \<times> jsval) list \<Rightarrow> string \<Rightarrow> jsval" where
  "own_property kvs k = (case map_of kvs k of None \<Rightarrow> JUndefined | Some v \<Rightarrow> v)"

text \<open>
  \<open>v.k\<close> on a value that is neither \<open>undefined\<close> nor \<open>null\<close>, for the identifiers \<open>k\<close> the
  source reads: an own property of an object, the \<open>length\<close> of an array or a string, and
  \<open>undefined\<close> otherwise.
\<close>

fun js_prop :: "jsval \<Rightarrow> string \<Rightarrow> jsval" where
  "js_prop (JObj kvs) k = own_property kvs k"
| "js_prop (JArr xs) k = (if k = ''length'' then JNum (int (length xs)) else JUndefined)"
| "js_prop (JStr s) k = (if k = ''length'' then JNum (int (length s)) else JUndefined)"
| "js_prop v k = JUndefined"

text \<open>\<open>v[0]\<close> on a value that is neither \<open>undefined\<close> nor \<open>null\<close>.\<close>

fun js_first :: "jsval \<Rightarrow> jsval" where
  "js_first (JObj kvs) = own_property kvs ''0''"
| "js_first (JArr xs) = (case xs of [] \<Rightarrow> JUndefined | x # _ \<Rightarrow> x)"
| "js_first (JStr s) = (case s of [] \<Rightarrow> JUndefined | c # _ \<Rightarrow> JStr [c])"
| "js_first v = JUndefined"

definition js_get :: "jsval \<Rightarrow> string \<Rightarrow> js_exception + jsval" where
  \<comment> \<open>\<open>v.k\<close>\<close>
  "js_get v k = (if nullish v then Inl (ReadOfNullish v k) else Inr (js_prop v k))"

definition js_get0 :: "jsval \<Rightarrow> js_exception + jsval" where
  \<comment> \<open>\<open>v[0]\<close>\<close>
  "js_get0 v = (if nullish v then Inl (ReadOfNullish v ''0'') else Inr (js_first v))"

definition js_opt :: "jsval \<Rightarrow> string \<Rightarrow> jsval" where
  \<comment> \<open>\<open>v?.k\<close>\<close>
  "js_opt v k = (if nullish v then JUndefined else js_prop v k)"

definition js_opt0 :: "jsval \<Rightarrow> jsval" where
  \<comment> \<open>\<open>v?.[0]\<close>\<close>
  "js_opt0 v = (if nullish v then JUndefined else js_first v)"

subsection \<open>Conversions\<close>

definition digit_char :: "nat \<Rightarrow> char" where
  "digit_char d = ''0123456789'' ! d"

function show_nat :: "nat \<Rightarrow> string" where
  "show_nat n = (if n < 10 then [digit_char n] else show_nat (n div 10) @ [digit_char (n mod 10)])"
  by pat_completeness auto
termination
  by (relation "measure (\<lambda>n. n)") auto

declare show_nat.simps [simp del]

definition show_int :: "int \<Rightarrow> string" where
  "show_int i = (if i < 0 then CHR ''-'' # show_nat (nat (- i)) else show_nat (nat i))"

text \<open>
  \<open>ToString\<close>. An array is joined with commas, \<open>undefined\<close> and \<open>null\<close> elements giving
  the empty string. An object of a JSON payload gives \<open>[object Object]\<close>, unless it has an
  own property \<open>toString\<close>: that property is not callable, the inherited \<open>valueOf\<close> returns the
  object itself, and the conversion throws.
\<close>

fun to_string :: "jsval \<Rightarrow> js_exception + string"
  and join_elems :: "jsval list \<Rightarrow> js_exception + string" where
  "to_string JUndefined = Inr ''undefined''"
| "to_string JNull = Inr ''null''"
| "to_string (JBool b) = Inr (if b then ''true'' else ''false'')"
| "to_string (JNum n) = Inr (show_int n)"
| "to_string JNaN = Inr ''NaN''"
| "to_string (JStr s) = Inr s"
| "to_string (JArr xs) = join_elems xs"
| "to_string (JObj kvs) =
     (if ''toString'' \<in> fst ` set kvs then Inl NoPrimitiveValue else Inr ''[object Object]'')"
| "join_elems [] = Inr []"
| "join_elems (x # xs) =
     (case (if x = JUndefined \<or> x = JNull then Inr [] else to_string x) of
        Inl e \<Rightarrow> Inl e
      | Inr s \<Rightarrow>
          if xs = [] then Inr s
          else (case join_elems xs of Inl e \<Rightarrow> Inl e | Inr t \<Rightarrow> Inr (s @ '','' @ t)))"

definition is_space :: "char \<Rightarrow> bool" where
  \<comment> \<open>white space and line terminators among the code units below 256\<close>
  "is_space c = (of_char c \<in> {9, 10, 11, 12, 13, 32, 160 :: nat})"

definition digit_value :: "char \<Rightarrow> nat option" where
  \<comment> \<open>the value of a digit in radix 36 or less\<close>
  "digit_value c =
     (let n = of_char c :: nat in
      if 48 \<le> n \<and> n \<le> 57 then Some (n - 48)
      else if 97 \<le> n \<and> n \<le> 122 then Some (n - 87)
      else if 65 \<le> n \<and> n \<le> 90 then Some (n - 55)
      else None)"

definition is_radix_digit :: "nat \<Rightarrow> char \<Rightarrow> bool" where
  "is_radix_digit r c = (case digit_value c of None \<Rightarrow> False | Some d \<Rightarrow> d < r)"

definition radix_value :: "nat \<Rightarrow> string \<Rightarrow> nat" where
  "radix_value r ds = foldl (\<lambda>acc c. acc * r + the (digit_value c)) 0 ds"

text \<open>
  \<open>parseInt(s)\<close> on a string, with no radix given: leading white space is skipped, a sign
  is read, a prefix \<open>0x\<close> selects radix 16, and the longest run of digits is the value;
  an empty run gives NaN.
\<close>

definition parseInt_str :: "string \<Rightarrow> jsval" where
  "parseInt_str inputString =
     (let S = dropWhile is_space inputString;
          neg = (S \<noteq> [] \<and> hd S = CHR ''-'');
          S = (if S \<noteq> [] \<and> (hd S = CHR ''+'' \<or> hd S = CHR ''-'') then tl S else S);
          hex = (take 2 S = ''0x'' \<or> take 2 S = ''0X'');
          R = (if hex then 16 else 10);
          S = (if hex then drop 2 S else S);
          Z = takeWhile (is_radix_digit R) S
      in if Z = [] then JNaN
         else if neg then JNum (- int (radix_value R Z)) else JNum (int (radix_value R Z)))"

definition parseInt :: "jsval \<Rightarrow> js_exception + jsval" where
  "parseInt v = bindE (to_string v) (\<lambda>s. Inr (parseInt_str s))"

text \<open>
  \<open>StringToNumber\<close>, for the spellings of integers: white space is trimmed on both sides,
  the empty string is \<open>0\<close>, then an optionally signed decimal integer or an unsigned
  integer with prefix \<open>0x\<close>, \<open>0o\<close> or \<open>0b\<close>. The other numeric spellings (a fraction, an
  exponent, \<open>Infinity\<close>) have no value among the numbers of the model and read as NaN here.
\<close>

definition string_to_number :: "string \<Rightarrow> jsval" where
  "string_to_number s =
     (let t = rev (dropWhile is_space (rev (dropWhile is_space s)));
          pre = take 2 t;
          r = (if pre = ''0x'' \<or> pre = ''0X'' then 16
               else if pre = ''0o'' \<or> pre = ''0O'' then 8
               else if pre = ''0b'' \<or> pre = ''0B'' then 2 else 10);
          neg = (r = 10 \<and> t \<noteq> [] \<and> hd t = CHR ''-'');
          ds = (if r \<noteq> 10 then drop 2 t
                else if t \<noteq> [] \<and> (hd t = CHR ''+'' \<or> hd t = CHR ''-'') then tl t else t)
      in if t = [] then JNum 0
         else if ds = [] \<or> \<not> list_all (is_radix_digit r) ds then JNaN
         else if neg then JNum (- int (radix_value r ds)) else JNum (int (radix_value r ds)))"

text \<open>\<open>ToNumber\<close>; the result is \<open>JNum n\<close> or \<open>JNaN\<close>.\<close>

fun to_number :: "jsval \<Rightarrow> js_exception + jsval" where
  "to_number JUndefined = Inr JNaN"
| "to_number JNull = Inr (JNum 0)"
| "to_number (JBool b) = Inr (JNum (if b then 1 else 0))"
| "to_number (JNum n) = Inr (JNum n)"
| "to_number JNaN = Inr JNaN"
| "to_number (JStr s) = Inr (string_to_number s)"
| "to_number v = bindE (to_string v) (\<lambda>s. Inr (string_to_number s))"

text \<open>The operators of the source whose right operand is a number literal.\<close>

definition js_gt :: "jsval \<Rightarrow> int \<Rightarrow> js_exception + bool" where
  \<comment> \<open>\<open>a > k\<close>\<close>
  "js_gt a k = bindE (to_number a) (\<lambda>n. Inr (case n of JNum x \<Rightarrow> x > k | _ \<Rightarrow> False))"

definition js_lt :: "jsval \<Rightarrow> int \<Rightarrow> js_exception + bool" where
  \<comment> \<open>\<open>a < k\<close>\<close>
  "js_lt a k = bindE (to_number a) (\<lambda>n. Inr (case n of JNum x \<Rightarrow> x < k | _ \<Rightarrow> False))"

definition js_mul :: "jsval \<Rightarrow> int \<Rightarrow> js_exception + jsval" where
  \<comment> \<open>\<open>a * k\<close>\<close>
  "js_mul a k = bindE (to_number a) (\<lambda>n. Inr (case n of JNum x \<Rightarrow> JNum (x * k) | _ \<Rightarrow> JNaN))"

text \<open>
  \<open>s.toUpperCase()\<close> on the letters \<open>a\<close> to \<open>z\<close>. The result is only ever used as a key
  of a table whose keys are upper-case ASCII words, and no other code unit below 256 is
  mapped to such a letter.
\<close>

definition upper_char :: "char \<Rightarrow> char" where
  "upper_char c =
     (let n = of_char c :: nat in if 97 \<le> n \<and> n \<le> 122 then char_of (n - 32) else c)"

definition toUpperCase :: "string \<Rightarrow> string" where
  "toUpperCase s = map upper_char s"

subsection \<open>Character classes of the regular expressions\<close>

definition is_digit :: "char \<Rightarrow> bool" where
  \<comment> \<open>\<open>\d\<close>\<close>
  "is_digit c = (c \<in> set ''0123456789'')"

definition is_suffix_char :: "char \<Rightarrow> bool" where
  \<comment> \<open>\<open>[a-z.]\<close> under the flag \<open>i\<close>\<close>
  "is_suffix_char c =
     (c \<in> set ''abcdefghijklmnopqrstuvwxyz'' \<or> c \<in> set ''ABCDEFGHIJKLMNOPQRSTUVWXYZ''
      \<or> c = CHR ''.'')"

text \<open>
  \<open>s.replace(/@[a-z.]+$/i, '')\<close>: the matcher tries each position from the left; a match
  at a position is an \<open>@\<close> followed by one or more letters or dots that reach the end of the
  string. The first match is removed.
\<close>

fun replace_wa_suffix :: "string \<Rightarrow> string" where
  "replace_wa_suffix [] = []"
| "replace_wa_suffix (c # cs) =
     (if c = CHR ''@'' \<and> cs \<noteq> [] \<and> list_all is_suffix_char cs then []
      else c # replace_wa_suffix cs)"

definition replace_leading_plus :: "string \<Rightarrow> string" where
  \<comment> \<open>\<open>s.replace(/^\+/, '')\<close>\<close>
  "replace_leading_plus s =
     (case s of [] \<Rightarrow> [] | c # cs \<Rightarrow> if c = CHR ''+'' then cs else c # cs)"

subsection \<open>Phone numbers\<close>

text \<open>\<open>BaseWebhookAdapter.normalizePhoneNumber\<close>, on a string argument.\<close>

definition normalizePhoneNumber_str :: "string \<Rightarrow> string" where
  "normalizePhoneNumber_str phone =
     (if phone = [] then []
      else
        let normalized = replace_wa_suffix phone;
            normalized = filter (\<lambda>c. is_digit c \<or> c = CHR ''+'') normalized;
            normalized = replace_leading_plus normalized
        in normalized)"

text \<open>The exported \<open>normalizePhoneNumber\<close> of \<open>utils/helpers.ts\<close>.\<close>

definition helpers_normalizePhoneNumber :: "string \<Rightarrow> string" where
  "helpers_normalizePhoneNumber phone =
     (if phone = [] then []
      else
        let normalized = replace_wa_suffix phone;
            normalized = filter is_digit normalized
        in if length normalized = 11 \<and> take 2 normalized = ''11''
           then ''55'' @ normalized
           else normalized)"

text \<open>
  The method as the adapters call it, on a value whose type was never checked: a falsy
  argument gives the empty string, and \<open>phone.replace\<close> exists on strings only.
\<close>

definition normalizePhoneNumber :: "jsval \<Rightarrow> js_exception + string" where
  "normalizePhoneNumber phone =
     (if \<not> truthy phone then Inr []
      else case phone of
             JStr s \<Rightarrow> Inr (normalizePhoneNumber_str s)
           | _ \<Rightarrow> Inl (NotAFunction ''replace''))"

section \<open>The normalised message model (\<open>types/index.ts\<close>)\<close>

datatype message_type =
  Text | Image | Audio | Video | Document | Location | Contact | Sticker | Reaction | UnknownType

datatype message_direction = Inbound | Outbound

datatype message_status = Received | Sent | Delivered | Read | Failed | Pending

datatype webhook_provider = Meta | Evolution | ZApi | UnknownProvider
  | Custom string  \<comment> \<open>an adapter registered through a cast, as the test suite does\<close>

datatype error_code =
    INVALID_PAYLOAD
  | UNKNOWN_PROVIDER
  | MISSING_REQUIRED_FIELD
  | PARSE_ERROR
  | UNSUPPORTED_MESSAGE_TYPE
  | PROCESSING_ERROR

text \<open>
  The fields are typed in the source, but the values stored in them are read from the
  payload unchecked; a field holds a \<open>jsval\<close> wherever the source stores such a value.
  An optional field that is left out holds \<open>JUndefined\<close>.
\<close>

record normalized_contact =
  phoneNumber :: string
  name :: jsval
  profilePicUrl :: jsval

record location_content =
  latitude :: jsval
  longitude :: jsval
  location_name :: jsval
  address :: jsval

record normalized_content =
  content_type :: message_type
  content_text :: jsval
  caption :: jsval
  mediaUrl :: jsval
  mimeType :: jsval
  fileName :: jsval
  location :: "location_content option"

record normalized_message =
  message_id :: string
  externalId :: jsval
  provider :: webhook_provider
  instanceId :: jsval
  timestamp :: jsval
  direction :: message_direction
  status :: message_status
  from_contact :: normalized_contact
  to_contact :: normalized_contact
  content :: normalized_content
  rawPayload :: jsval
  metadata :: "(string \<times> jsval) list"

datatype error_details =
    NoDetails
  | ErrorMessage js_exception  \<comment> \<open>\<open>error.message\<close> of the exception caught\<close>
  | RegistryDetails "webhook_provider list" string "string list"
      \<comment> \<open>\<open>registeredProviders\<close>, \<open>payloadType\<close>, \<open>payloadKeys\<close>\<close>

record normalization_error =
  code :: error_code
  error_message :: string
  details :: error_details

datatype normalization_result =
    Success normalized_message  \<comment> \<open>\<open>{ success: true, message }\<close>\<close>
  | Failure normalization_error  \<comment> \<open>\<open>{ success: false, error }\<close>\<close>

section \<open>\<open>BaseWebhookAdapter\<close>\<close>

text \<open>
  \<open>Date.now()\<close> and \<open>Math.random().toString(36)\<close> are inputs of the model: the clock in
  milliseconds and the base-36 rendering of the random number, as in \<open>0.4fzyo82mvyr\<close>.
\<close>

record env =
  now :: nat
  random36 :: string

definition generateId :: "env \<Rightarrow> string" where
  \<comment> \<open>\<open>`msg_${Date.now()}_${Math.random().toString(36).substring(2, 9)}`\<close>\<close>
  "generateId e = ''msg_'' @ show_nat (now e) @ ''_'' @ take 7 (drop 2 (random36 e))"

definition createError :: "error_code \<Rightarrow> string \<Rightarrow> error_details \<Rightarrow> normalization_result" where
  "createError c m d = Failure \<lparr> code = c, error_message = m, details = d \<rparr>"

definition createSuccess :: "normalized_message \<Rightarrow> normalization_result" where
  "createSuccess m = Success m"

definition content_of :: "message_type \<Rightarrow> normalized_content" where
  \<comment> \<open>the object literal \<open>{ type: t }\<close>\<close>
  "content_of t =
     \<lparr> content_type = t, content_text = JUndefined, caption = JUndefined,
       mediaUrl = JUndefined, mimeType = JUndefined, fileName = JUndefined,
       location = None \<rparr>"

text \<open>The accented letters of the Portuguese messages, as code units.\<close>

definition nao :: string where "nao = [CHR ''n'', CHR 0xE3, CHR ''o'']"
definition Nao :: string where "Nao = [CHR ''N'', CHR 0xE3, CHR ''o'']"
definition e_acute :: string where "e_acute = [CHR 0xE9]"
definition valido :: string where "valido = [CHR ''v'', CHR 0xE1] @ ''lido''"
definition contem :: string where "contem = ''cont'' @ [CHR 0xE9] @ ''m''"
definition obrigatorios :: string where "obrigatorios = ''obrigat'' @ [CHR 0xF3] @ ''rios''"

definition possivel :: string where "possivel = ''poss'' @ [CHR 0xED] @ ''vel''"

section \<open>\<open>MetaAdapter\<close>\<close>

definition meta_canHandle :: "jsval \<Rightarrow> js_exception + bool" where
  "meta_canHandle payload =
     (if \<not> isObject payload then Inr False
      else
        bindE (js_get payload ''object'') (\<lambda>obj.
        if obj \<noteq> JStr ''whatsapp_business_account'' then Inr False
        else
          bindE (js_get payload ''entry'') (\<lambda>entry.
          if \<not> isArray entry then Inr False
          else bindE (js_get entry ''length'') (\<lambda>len. js_gt len 0))))"

text \<open>The body of the \<open>try\<close> block of \<open>validate\<close>.\<close>

definition meta_validate_body :: "jsval \<Rightarrow> js_exception + bool" where
  "meta_validate_body p =
     bindE (js_get p ''entry'') (\<lambda>entries.
     bindE (js_get0 entries) (\<lambda>entry.
     let changes = js_opt0 (js_opt entry ''changes'');
         value = js_opt changes ''value''
     in Inr (truthy (js_or (js_opt (js_opt value ''messages'') ''length'')
                           (js_opt (js_opt value ''statuses'') ''length'')))))"

definition meta_validate :: "jsval \<Rightarrow> js_exception + bool" where
  "meta_validate payload =
     bindE (meta_canHandle payload) (\<lambda>c.
     if \<not> c then Inr False
     else (case meta_validate_body payload of Inl e \<Rightarrow> Inr False | Inr b \<Rightarrow> Inr b))"

text \<open>
  \<open>typeMap[metaType] || 'unknown'\<close>: the key is converted to a string first, which can
  throw. The tables of the adapters are modelled for keys that are not names of members of
  \<open>Object.prototype\<close>.
\<close>

definition meta_mapMessageType :: "jsval \<Rightarrow> js_exception + message_type" where
  "meta_mapMessageType metaType =
     bindE (to_string metaType) (\<lambda>k. Inr (
       if k = ''text'' then Text
       else if k = ''image'' then Image
       else if k = ''audio'' then Audio
       else if k = ''video'' then Video
       else if k = ''document'' then Document
       else if k = ''location'' then Location
       else if k = ''contacts'' then Contact
       else if k = ''sticker'' then Sticker
       else if k = ''reaction'' then Reaction
       else UnknownType))"

definition meta_mapStatus :: "jsval \<Rightarrow> js_exception + message_status" where
  "meta_mapStatus metaStatus =
     bindE (to_string metaStatus) (\<lambda>k. Inr (
       if k = ''sent'' then Sent
       else if k = ''delivered'' then Delivered
       else if k = ''read'' then Read
       else if k = ''failed'' then Failed
       else Pending))"

definition meta_extractContent :: "jsval \<Rightarrow> js_exception + normalized_content" where
  "meta_extractContent msg =
     bindE (js_get msg ''type'') (\<lambda>ty.
     bindE (meta_mapMessageType ty) (\<lambda>type.
     if ty = JStr ''text'' then
       Inr ((content_of Text)
         \<lparr> content_text := js_or (js_opt (js_prop msg ''text'') ''body'') (JStr []) \<rparr>)
     else if ty = JStr ''image'' then
       Inr ((content_of Image)
         \<lparr> mediaUrl := js_opt (js_prop msg ''image'') ''id'',
           mimeType := js_opt (js_prop msg ''image'') ''mime_type'',
           caption := js_opt (js_prop msg ''image'') ''caption'' \<rparr>)
     else if ty = JStr ''audio'' then
       Inr ((content_of Audio)
         \<lparr> mediaUrl := js_opt (js_prop msg ''audio'') ''id'',
           mimeType := js_opt (js_prop msg ''audio'') ''mime_type'' \<rparr>)
     else if ty = JStr ''video'' then
       Inr ((content_of Video)
         \<lparr> mediaUrl := js_opt (js_prop msg ''video'') ''id'',
           mimeType := js_opt (js_prop msg ''video'') ''mime_type'',
           caption := js_opt (js_prop msg ''video'') ''caption'' \<rparr>)
     else if ty = JStr ''document'' then
       Inr ((content_of Document)
         \<lparr> mediaUrl := js_opt (js_prop msg ''document'') ''id'',
           mimeType := js_opt (js_prop msg ''document'') ''mime_type'',
           fileName := js_opt (js_prop msg ''document'') ''filename'',
           caption := js_opt (js_prop msg ''document'') ''caption'' \<rparr>)
     else if ty = JStr ''location'' then
       Inr ((content_of Location)
         \<lparr> location := Some
             \<lparr> latitude = js_or (js_opt (js_prop msg ''location'') ''latitude'') (JNum 0),
               longitude = js_or (js_opt (js_prop msg ''location'') ''longitude'') (JNum 0),
               location_name = js_opt (js_prop msg ''location'') ''name'',
               address = js_opt (js_prop msg ''location'') ''address'' \<rparr> \<rparr>)
     else
       bindE (to_string ty) (\<lambda>t.
       Inr ((content_of UnknownType)
         \<lparr> content_text := JStr (''Tipo '' @ nao @ '' suportado: '' @ t) \<rparr>))))"

text \<open>\<open>xs && xs.length > 0\<close>\<close>

definition has_items :: "jsval \<Rightarrow> js_exception + bool" where
  "has_items xs =
     (if truthy xs then bindE (js_get xs ''length'') (\<lambda>len. js_gt len 0) else Inr False)"

text \<open>The message built in the branch of a received message.\<close>

definition meta_inbound ::
  "env \<Rightarrow> jsval \<Rightarrow> jsval \<Rightarrow> jsval \<Rightarrow> jsval \<Rightarrow> js_exception + normalization_result" where
  "meta_inbound e payload entry value mdata =
     bindE (js_get value ''messages'') (\<lambda>messages.
     bindE (js_get0 messages) (\<lambda>msg.
     bindE (js_get value ''contacts'') (\<lambda>contacts.
     let contact = js_opt0 contacts in
     bindE (js_get msg ''id'') (\<lambda>msg_id.
     bindE (js_get mdata ''phone_number_id'') (\<lambda>phone_number_id.
     bindE (js_get msg ''timestamp'') (\<lambda>msg_timestamp.
     bindE (parseInt msg_timestamp) (\<lambda>seconds.
     bindE (js_mul seconds 1000) (\<lambda>millis.
     bindE (js_get msg ''from'') (\<lambda>msg_from.
     bindE (normalizePhoneNumber msg_from) (\<lambda>from_phone.
     bindE (js_get mdata ''display_phone_number'') (\<lambda>display.
     bindE (normalizePhoneNumber display) (\<lambda>to_phone.
     bindE (meta_extractContent msg) (\<lambda>c.
     bindE (js_get entry ''id'') (\<lambda>entry_id.
     Inr (createSuccess
       \<lparr> message_id = generateId e,
         externalId = msg_id,
         provider = Meta,
         instanceId = phone_number_id,
         timestamp = millis,
         direction = Inbound,
         status = Received,
         from_contact =
           \<lparr> phoneNumber = from_phone,
             name = js_or (js_opt (js_opt contact ''profile'') ''name'') JNull,
             profilePicUrl = JUndefined \<rparr>,
         to_contact =
           \<lparr> phoneNumber = to_phone, name = JNull, profilePicUrl = JUndefined \<rparr>,
         content = c,
         rawPayload = payload,
         metadata =
           [(''businessAccountId'', entry_id), (''phoneNumberId'', phone_number_id)]
       \<rparr>)))))))))))))))"

text \<open>The message built in the branch of a status update.\<close>

definition meta_status_update ::
  "env \<Rightarrow> jsval \<Rightarrow> jsval \<Rightarrow> jsval \<Rightarrow> js_exception + normalization_result" where
  "meta_status_update e payload value mdata =
     bindE (js_get value ''statuses'') (\<lambda>statuses.
     bindE (js_get0 statuses) (\<lambda>st.
     bindE (js_get st ''id'') (\<lambda>status_id.
     bindE (js_get mdata ''phone_number_id'') (\<lambda>phone_number_id.
     bindE (js_get st ''timestamp'') (\<lambda>status_timestamp.
     bindE (parseInt status_timestamp) (\<lambda>seconds.
     bindE (js_mul seconds 1000) (\<lambda>millis.
     bindE (js_get st ''status'') (\<lambda>status_status.
     bindE (meta_mapStatus status_status) (\<lambda>mapped.
     bindE (js_get mdata ''display_phone_number'') (\<lambda>display.
     bindE (normalizePhoneNumber display) (\<lambda>from_phone.
     bindE (js_get st ''recipient_id'') (\<lambda>recipient.
     bindE (normalizePhoneNumber recipient) (\<lambda>to_phone.
     Inr (createSuccess
       \<lparr> message_id = generateId e,
         externalId = status_id,
         provider = Meta,
         instanceId = phone_number_id,
         timestamp = millis,
         direction = Outbound,
         status = mapped,
         from_contact =
           \<lparr> phoneNumber = from_phone, name = JNull, profilePicUrl = JUndefined \<rparr>,
         to_contact =
           \<lparr> phoneNumber = to_phone, name = JNull, profilePicUrl = JUndefined \<rparr>,
         content = content_of UnknownType,
         rawPayload = payload,
         metadata =
           [(''isStatusUpdate'', JBool True), (''originalStatus'', status_status)]
       \<rparr>))))))))))))))"

text \<open>The body of the \<open>try\<close> block of \<open>normalize\<close>.\<close>

definition meta_extract :: "env \<Rightarrow> jsval \<Rightarrow> js_exception + normalization_result" where
  "meta_extract e payload =
     bindE (js_get payload ''entry'') (\<lambda>entries.
     bindE (js_get0 entries) (\<lambda>entry.
     bindE (js_get entry ''changes'') (\<lambda>entry_changes.
     bindE (js_get0 entry_changes) (\<lambda>changes.
     bindE (js_get changes ''value'') (\<lambda>value.
     bindE (js_get value ''metadata'') (\<lambda>mdata.
     bindE (js_get value ''messages'') (\<lambda>messages.
     bindE (has_items messages) (\<lambda>has_messages.
     if has_messages then meta_inbound e payload entry value mdata
     else
       bindE (js_get value ''statuses'') (\<lambda>statuses.
       bindE (has_items statuses) (\<lambda>has_statuses.
       if has_statuses then meta_status_update e payload value mdata
       else Inr (createError PROCESSING_ERROR
              (Nao @ '' foi '' @ possivel @ '' extrair mensagem do payload'') NoDetails)))))))))))"

definition meta_normalize :: "env \<Rightarrow> jsval \<Rightarrow> js_exception + normalization_result" where
  "meta_normalize e payload =
     bindE (meta_canHandle payload) (\<lambda>c.
     if \<not> c then
       Inr (createError INVALID_PAYLOAD
         (''Payload '' @ nao @ '' '' @ e_acute @ '' um webhook '' @ valido
            @ '' da Meta Cloud API'') NoDetails)
     else
       bindE (meta_validate payload) (\<lambda>v.
       if \<not> v then
         Inr (createError MISSING_REQUIRED_FIELD
           (''Payload da Meta '' @ nao @ '' '' @ contem
              @ '' mensagens ou status updates'') NoDetails)
       else
         (case meta_extract e payload of
            Inl err \<Rightarrow>
              Inr (createError PARSE_ERROR ''Erro ao processar payload da Meta''
                     (ErrorMessage err))
          | Inr r \<Rightarrow> Inr r)))"

section \<open>\<open>EvolutionAdapter\<close>\<close>

definition evolution_canHandle :: "jsval \<Rightarrow> js_exception + bool" where
  "evolution_canHandle payload =
     (if \<not> isObject payload then Inr False
      else
        bindE (js_get payload ''event'') (\<lambda>event.
        if js_typeof event \<noteq> ''string'' then Inr False
        else
          bindE (js_get payload ''instance'') (\<lambda>inst.
          if js_typeof inst \<noteq> ''string'' then Inr False
          else
            bindE (js_get payload ''data'') (\<lambda>data.
            if \<not> isObject data then Inr False
            else bindE (js_get data ''key'') (\<lambda>key. Inr (isObject key))))))"

definition evolution_validate_body :: "jsval \<Rightarrow> js_exception + bool" where
  "evolution_validate_body p =
     bindE (js_get p ''data'') (\<lambda>data.
     Inr (truthy (js_opt (js_opt data ''key'') ''remoteJid'')
          \<and> truthy (js_opt (js_opt data ''key'') ''id'')
          \<and> js_opt data ''messageTimestamp'' \<noteq> JUndefined))"

definition evolution_validate :: "jsval \<Rightarrow> js_exception + bool" where
  "evolution_validate payload =
     bindE (evolution_canHandle payload) (\<lambda>c.
     if \<not> c then Inr False
     else (case evolution_validate_body payload of Inl e \<Rightarrow> Inr False | Inr b \<Rightarrow> Inr b))"

definition isMessageEvent :: "jsval \<Rightarrow> bool" where
  "isMessageEvent event =
     (event \<in> set [JStr ''messages.upsert'', JStr ''messages.update'',
                   JStr ''message.ack'', JStr ''send.message''])"

definition normalizeTimestamp :: "jsval \<Rightarrow> js_exception + jsval" where
  "normalizeTimestamp ts =
     bindE (js_lt ts 10000000000) (\<lambda>below.
     if below then js_mul ts 1000 else Inr ts)"

definition evolution_mapMessageType :: "jsval \<Rightarrow> js_exception + message_type" where
  "evolution_mapMessageType evolutionType =
     bindE (to_string evolutionType) (\<lambda>k. Inr (
       if k = ''conversation'' then Text
       else if k = ''extendedTextMessage'' then Text
       else if k = ''imageMessage'' then Image
       else if k = ''audioMessage'' then Audio
       else if k = ''videoMessage'' then Video
       else if k = ''documentMessage'' then Document
       else if k = ''locationMessage'' then Location
       else if k = ''contactMessage'' then Contact
       else if k = ''stickerMessage'' then Sticker
       else if k = ''reactionMessage'' then Reaction
       else UnknownType))"

definition evolution_extractContent ::
  "jsval \<Rightarrow> jsval \<Rightarrow> js_exception + normalized_content" where
  "evolution_extractContent msg messageType =
     (if \<not> truthy msg then Inr (content_of UnknownType)
      else if truthy (js_prop msg ''conversation'') then
        Inr ((content_of Text) \<lparr> content_text := js_prop msg ''conversation'' \<rparr>)
      else if truthy (js_prop msg ''extendedTextMessage'') then
        Inr ((content_of Text)
          \<lparr> content_text :=
              js_or (js_prop (js_prop msg ''extendedTextMessage'') ''text'') (JStr []) \<rparr>)
      else if truthy (js_prop msg ''imageMessage'') then
        Inr ((content_of Image)
          \<lparr> mediaUrl := js_prop (js_prop msg ''imageMessage'') ''url'',
            mimeType := js_prop (js_prop msg ''imageMessage'') ''mimetype'',
            caption := js_prop (js_prop msg ''imageMessage'') ''caption'' \<rparr>)
      else if truthy (js_prop msg ''audioMessage'') then
        Inr ((content_of Audio)
          \<lparr> mediaUrl := js_prop (js_prop msg ''audioMessage'') ''url'',
            mimeType := js_prop (js_prop msg ''audioMessage'') ''mimetype'' \<rparr>)
      else if truthy (js_prop msg ''videoMessage'') then
        Inr ((content_of Video)
          \<lparr> mediaUrl := js_prop (js_prop msg ''videoMessage'') ''url'',
            mimeType := js_prop (js_prop msg ''videoMessage'') ''mimetype'',
            caption := js_prop (js_prop msg ''videoMessage'') ''caption'' \<rparr>)
      else if truthy (js_prop msg ''documentMessage'') then
        Inr ((content_of Document)
          \<lparr> mediaUrl := js_prop (js_prop msg ''documentMessage'') ''url'',
            mimeType := js_prop (js_prop msg ''documentMessage'') ''mimetype'',
            fileName := js_prop (js_prop msg ''documentMessage'') ''fileName'',
            caption := js_prop (js_prop msg ''documentMessage'') ''caption'' \<rparr>)
      else if truthy (js_prop msg ''locationMessage'') then
        Inr ((content_of Location)
          \<lparr> location := Some
              \<lparr> latitude = js_prop (js_prop msg ''locationMessage'') ''degreesLatitude'',
                longitude = js_prop (js_prop msg ''locationMessage'') ''degreesLongitude'',
                location_name = js_prop (js_prop msg ''locationMessage'') ''name'',
                address = js_prop (js_prop msg ''locationMessage'') ''address'' \<rparr> \<rparr>)
      else
        bindE (evolution_mapMessageType messageType) (\<lambda>t.
        bindE (to_string messageType) (\<lambda>shown.
        Inr ((content_of t)
          \<lparr> content_text := JStr (''Conte'' @ [CHR 0xFA] @ ''do do tipo: '' @ shown) \<rparr>))))"

definition evolution_extract :: "env \<Rightarrow> jsval \<Rightarrow> js_exception + normalization_result" where
  "evolution_extract e payload =
     bindE (js_get payload ''event'') (\<lambda>event.
     if \<not> isMessageEvent event then
       bindE (to_string event) (\<lambda>shown.
       Inr (createError UNSUPPORTED_MESSAGE_TYPE
         (''Evento '' @ nao @ '' suportado: '' @ shown
            @ ''. Apenas eventos de mensagem s'' @ [CHR 0xE3] @ ''o processados.'')
         NoDetails))
     else
       bindE (js_get payload ''data'') (\<lambda>data.
       bindE (js_get payload ''instance'') (\<lambda>inst.
       bindE (js_get payload ''destination'') (\<lambda>destination.
       bindE (js_get data ''key'') (\<lambda>key.
       bindE (js_get data ''pushName'') (\<lambda>pushName.
       bindE (js_get data ''message'') (\<lambda>msg.
       bindE (js_get data ''messageType'') (\<lambda>messageType.
       bindE (js_get data ''messageTimestamp'') (\<lambda>messageTimestamp.
       bindE (js_get key ''remoteJid'') (\<lambda>remoteJid.
       bindE (normalizePhoneNumber remoteJid) (\<lambda>fromPhone.
       bindE (normalizePhoneNumber (js_or destination (JStr []))) (\<lambda>toPhone.
       bindE (js_get key ''id'') (\<lambda>key_id.
       bindE (normalizeTimestamp messageTimestamp) (\<lambda>millis.
       bindE (js_get key ''fromMe'') (\<lambda>fromMe.
       bindE (evolution_extractContent msg messageType) (\<lambda>c.
       bindE (js_get payload ''server_url'') (\<lambda>server_url.
       bindE (js_get payload ''date_time'') (\<lambda>date_time.
       Inr (createSuccess
         \<lparr> message_id = generateId e,
           externalId = key_id,
           provider = Evolution,
           instanceId = inst,
           timestamp = millis,
           direction = (if truthy fromMe then Outbound else Inbound),
           status = (if truthy fromMe then Sent else Received),
           from_contact =
             \<lparr> phoneNumber = (if truthy fromMe then toPhone else fromPhone),
               name = (if truthy fromMe then JNull else js_or pushName JNull),
               profilePicUrl = JUndefined \<rparr>,
           to_contact =
             \<lparr> phoneNumber = (if truthy fromMe then fromPhone else toPhone),
               name = (if truthy fromMe then js_or pushName JNull else JNull),
               profilePicUrl = JUndefined \<rparr>,
           content = c,
           rawPayload = payload,
           metadata =
             [(''event'', event), (''serverUrl'', server_url), (''dateTime'', date_time)]
         \<rparr>)))))))))))))))))))"

definition evolution_normalize :: "env \<Rightarrow> jsval \<Rightarrow> js_exception + normalization_result" where
  "evolution_normalize e payload =
     bindE (evolution_canHandle payload) (\<lambda>c.
     if \<not> c then
       Inr (createError INVALID_PAYLOAD
         (''Payload '' @ nao @ '' '' @ e_acute @ '' um webhook '' @ valido
            @ '' da Evolution API'') NoDetails)
     else
       bindE (evolution_validate payload) (\<lambda>v.
       if \<not> v then
         Inr (createError MISSING_REQUIRED_FIELD
           (''Payload da Evolution '' @ nao @ '' '' @ contem @ '' campos '' @ obrigatorios
              @ '' (remoteJid, id, messageTimestamp)'') NoDetails)
       else
         (case evolution_extract e payload of
            Inl err \<Rightarrow>
              Inr (createError PARSE_ERROR ''Erro ao processar payload da Evolution API''
                     (ErrorMessage err))
          | Inr r \<Rightarrow> Inr r)))"

section \<open>\<open>ZApiAdapter\<close>\<close>

definition zapi_canHandle :: "jsval \<Rightarrow> js_exception + bool" where
  "zapi_canHandle payload =
     (if \<not> isObject payload then Inr False
      else
        bindE (js_get payload ''instanceId'') (\<lambda>instanceId.
        if js_typeof instanceId \<noteq> ''string'' then Inr False
        else
          bindE (js_get payload ''messageId'') (\<lambda>messageId.
          if js_typeof messageId \<noteq> ''string'' then Inr False
          else
            bindE (js_get payload ''phone'') (\<lambda>phone.
            if js_typeof phone \<noteq> ''string'' then Inr False
            else
              bindE (js_get payload ''momment'') (\<lambda>momment.
              Inr (js_typeof momment = ''number''))))))"

definition zapi_validate_body :: "jsval \<Rightarrow> js_exception + bool" where
  "zapi_validate_body p =
     bindE (js_get p ''instanceId'') (\<lambda>instanceId.
     if \<not> truthy instanceId then Inr False
     else
       bindE (js_get p ''messageId'') (\<lambda>messageId.
       if \<not> truthy messageId then Inr False
       else
         bindE (js_get p ''phone'') (\<lambda>phone.
         if \<not> truthy phone then Inr False
         else bindE (js_get p ''momment'') (\<lambda>momment. Inr (truthy momment)))))"

definition zapi_validate :: "jsval \<Rightarrow> js_exception + bool" where
  "zapi_validate payload =
     bindE (zapi_canHandle payload) (\<lambda>c.
     if \<not> c then Inr False
     else (case zapi_validate_body payload of Inl e \<Rightarrow> Inr False | Inr b \<Rightarrow> Inr b))"

text \<open>
  \<open>statusMap[zapiStatus?.toUpperCase()] || 'pending'\<close>: on \<open>undefined\<close> and \<open>null\<close> the key
  is \<open>undefined\<close>, which the table does not have; \<open>toUpperCase\<close> exists on strings only.
\<close>

definition zapi_mapStatus :: "jsval \<Rightarrow> bool \<Rightarrow> js_exception + message_status" where
  "zapi_mapStatus zapiStatus isOutbound =
     (if \<not> isOutbound then Inr Received
      else if nullish zapiStatus then Inr Pending
      else case zapiStatus of
             JStr s \<Rightarrow>
               (let k = toUpperCase s in Inr (
                  if k = ''RECEIVED'' then Received
                  else if k = ''SENT'' then Sent
                  else if k = ''DELIVERED'' then Delivered
                  else if k = ''READ'' then Read
                  else if k = ''PLAYED'' then Read
                  else if k = ''FAILED'' then Failed
                  else Pending))
           | _ \<Rightarrow> Inl (NotAFunction ''toUpperCase''))"

definition zapi_extractContent :: "jsval \<Rightarrow> js_exception + normalized_content" where
  "zapi_extractContent p =
     bindE (js_get p ''text'') (\<lambda>txt.
     if truthy (js_opt txt ''message'') then
       Inr ((content_of Text) \<lparr> content_text := js_prop txt ''message'' \<rparr>)
     else
       bindE (js_get p ''image'') (\<lambda>image.
       if truthy image then
         Inr ((content_of Image)
           \<lparr> mediaUrl := js_prop image ''imageUrl'',
             mimeType := js_prop image ''mimeType'',
             caption := js_prop image ''caption'' \<rparr>)
       else
         bindE (js_get p ''audio'') (\<lambda>audio.
         if truthy audio then
           Inr ((content_of Audio)
             \<lparr> mediaUrl := js_prop audio ''audioUrl'',
               mimeType := js_prop audio ''mimeType'' \<rparr>)
         else
           bindE (js_get p ''video'') (\<lambda>video.
           if truthy video then
             Inr ((content_of Video)
               \<lparr> mediaUrl := js_prop video ''videoUrl'',
                 mimeType := js_prop video ''mimeType'',
                 caption := js_prop video ''caption'' \<rparr>)
           else
             bindE (js_get p ''document'') (\<lambda>doc.
             if truthy doc then
               Inr ((content_of Document)
                 \<lparr> mediaUrl := js_prop doc ''documentUrl'',
                   mimeType := js_prop doc ''mimeType'',
                   fileName := js_prop doc ''fileName'',
                   caption := js_prop doc ''caption'' \<rparr>)
             else
               bindE (js_get p ''location'') (\<lambda>loc.
               if truthy loc then
                 Inr ((content_of Location)
                   \<lparr> location := Some
                       \<lparr> latitude = js_prop loc ''latitude'',
                         longitude = js_prop loc ''longitude'',
                         location_name = js_prop loc ''name'',
                         address = js_prop loc ''address'' \<rparr> \<rparr>)
               else
                 bindE (js_get p ''type'') (\<lambda>ty.
                 bindE (to_string ty) (\<lambda>shown.
                 Inr ((content_of UnknownType)
                   \<lparr> content_text := JStr (''Tipo de mensagem: '' @ shown) \<rparr>)))))))))"

definition zapi_extract :: "env \<Rightarrow> jsval \<Rightarrow> js_exception + normalization_result" where
  "zapi_extract e payload =
     bindE (js_get payload ''fromMe'') (\<lambda>fromMe.
     let isOutbound = (fromMe = JBool True) in
     bindE (js_get payload ''phone'') (\<lambda>phone.
     bindE (normalizePhoneNumber phone) (\<lambda>contactPhone.
     bindE (js_get payload ''messageId'') (\<lambda>messageId.
     bindE (js_get payload ''instanceId'') (\<lambda>inst.
     bindE (js_get payload ''momment'') (\<lambda>momment.
     bindE (js_get payload ''status'') (\<lambda>zapiStatus.
     bindE (zapi_mapStatus zapiStatus isOutbound) (\<lambda>mapped.
     bindE (js_get payload ''senderName'') (\<lambda>senderName.
     bindE (js_get payload ''chatName'') (\<lambda>chatName.
     bindE (js_get payload ''senderPhoto'') (\<lambda>senderPhoto.
     bindE (js_get payload ''photo'') (\<lambda>photo.
     bindE (zapi_extractContent payload) (\<lambda>c.
     bindE (js_get payload ''type'') (\<lambda>ty.
     bindE (js_get payload ''broadcast'') (\<lambda>broadcast.
     bindE (js_get payload ''participantPhone'') (\<lambda>participantPhone.
     Inr (createSuccess
       \<lparr> message_id = generateId e,
         externalId = messageId,
         provider = ZApi,
         instanceId = inst,
         timestamp = momment,
         direction = (if isOutbound then Outbound else Inbound),
         status = mapped,
         from_contact =
           \<lparr> phoneNumber = (if isOutbound then [] else contactPhone),
             name = (if isOutbound then JNull
                     else js_or senderName (js_or chatName JNull)),
             profilePicUrl = js_or senderPhoto photo \<rparr>,
         to_contact =
           \<lparr> phoneNumber = (if isOutbound then contactPhone else []),
             name = (if isOutbound then js_or chatName JNull else JNull),
             profilePicUrl = JUndefined \<rparr>,
         content = c,
         rawPayload = payload,
         metadata =
           [(''type'', ty), (''broadcast'', broadcast),
            (''participantPhone'', participantPhone)]
       \<rparr>)))))))))))))))))"

definition zapi_normalize :: "env \<Rightarrow> jsval \<Rightarrow> js_exception + normalization_result" where
  "zapi_normalize e payload =
     bindE (zapi_canHandle payload) (\<lambda>c.
     if \<not> c then
       Inr (createError INVALID_PAYLOAD
         (''Payload '' @ nao @ '' '' @ e_acute @ '' um webhook '' @ valido
            @ '' da Z-API'') NoDetails)
     else
       bindE (zapi_validate payload) (\<lambda>v.
       if \<not> v then
         Inr (createError MISSING_REQUIRED_FIELD
           (''Payload da Z-API '' @ nao @ '' '' @ contem @ '' campos '' @ obrigatorios)
           NoDetails)
       else
         (case zapi_extract e payload of
            Inl err \<Rightarrow>
              Inr (createError PARSE_ERROR ''Erro ao processar payload da Z-API''
                     (ErrorMessage err))
          | Inr r \<Rightarrow> Inr r)))"

section \<open>\<open>AdapterRegistry\<close>\<close>

text \<open>
  The interface \<open>WebhookAdapter\<close>. A registered adapter is any implementation of it, so
  its operations may throw; \<open>identify\<close> is never called by the registry and is left out.
\<close>

record webhook_adapter =
  adapter_provider :: webhook_provider
  canHandle :: "jsval \<Rightarrow> js_exception + bool"
  normalize :: "env \<Rightarrow> jsval \<Rightarrow> js_exception + normalization_result"
  validate :: "jsval \<Rightarrow> js_exception + bool"

definition MetaAdapter :: webhook_adapter where
  "MetaAdapter =
     \<lparr> adapter_provider = Meta, canHandle = meta_canHandle,
       normalize = meta_normalize, validate = meta_validate \<rparr>"

definition EvolutionAdapter :: webhook_adapter where
  "EvolutionAdapter =
     \<lparr> adapter_provider = Evolution, canHandle = evolution_canHandle,
       normalize = evolution_normalize, validate = evolution_validate \<rparr>"

definition ZApiAdapter :: webhook_adapter where
  "ZApiAdapter =
     \<lparr> adapter_provider = ZApi, canHandle = zapi_canHandle,
       normalize = zapi_normalize, validate = zapi_validate \<rparr>"

text \<open>
  The field \<open>adapters\<close> is a \<open>Map\<close>: it keeps the order of first insertion, and setting a
  key that is present replaces the value in place. The warning that \<open>register\<close> logs in that
  case is not part of the state.
\<close>

type_synonym adapter_registry = "(webhook_provider \<times> webhook_adapter) list"

definition register :: "adapter_registry \<Rightarrow> webhook_adapter \<Rightarrow> adapter_registry" where
  "register reg adapter = AList.update (adapter_provider adapter) adapter reg"

definition registerDefaultAdapters :: "adapter_registry \<Rightarrow> adapter_registry" where
  "registerDefaultAdapters reg =
     register (register (register reg MetaAdapter) EvolutionAdapter) ZApiAdapter"

definition new_registry :: adapter_registry where
  \<comment> \<open>the constructor, and \<open>reset\<close>\<close>
  "new_registry = registerDefaultAdapters []"

definition getRegisteredProviders :: "adapter_registry \<Rightarrow> webhook_provider list" where
  "getRegisteredProviders reg = map fst reg"

text \<open>The loop \<open>for (const adapter of this.adapters.values())\<close> of \<open>findAdapter\<close>.\<close>

fun find_in :: "webhook_adapter list \<Rightarrow> jsval \<Rightarrow> js_exception + webhook_adapter option" where
  "find_in [] payload = Inr None"
| "find_in (adapter # rest) payload =
     bindE (canHandle adapter payload) (\<lambda>c.
     if c then Inr (Some adapter) else find_in rest payload)"

definition findAdapter ::
  "adapter_registry \<Rightarrow> jsval \<Rightarrow> js_exception + webhook_adapter option" where
  "findAdapter reg payload = find_in (map snd reg) payload"

definition getPayloadKeys :: "jsval \<Rightarrow> string list" where
  \<comment> \<open>\<open>Object.keys\<close> of an object or an array, and no key otherwise\<close>
  "getPayloadKeys payload =
     (if js_typeof payload = ''object'' \<and> payload \<noteq> JNull then
        (case payload of
           JObj kvs \<Rightarrow> map fst kvs
         | JArr xs \<Rightarrow> map show_nat [0 ..< length xs]
         | _ \<Rightarrow> [])
      else [])"

definition provider_name :: "webhook_provider \<Rightarrow> string" where
  "provider_name p =
     (case p of Meta \<Rightarrow> ''meta'' | Evolution \<Rightarrow> ''evolution'' | ZApi \<Rightarrow> ''z-api''
      | UnknownProvider \<Rightarrow> ''unknown'' | Custom s \<Rightarrow> s)"

text \<open>
  \<open>AdapterRegistry.normalize\<close>. The call of \<open>findAdapter\<close> stands outside the \<open>try\<close>
  block; the call of the adapter's \<open>normalize\<close> stands inside.
\<close>

definition registry_normalize ::
  "env \<Rightarrow> adapter_registry \<Rightarrow> jsval \<Rightarrow> js_exception + normalization_result" where
  "registry_normalize e reg payload =
     (if payload = JNull \<or> payload = JUndefined then
        Inr (Failure
          \<lparr> code = INVALID_PAYLOAD,
            error_message = ''Payload '' @ nao @ '' pode ser null ou undefined'',
            details = NoDetails \<rparr>)
      else
        bindE (findAdapter reg payload) (\<lambda>found.
        case found of
          None \<Rightarrow>
            Inr (Failure
              \<lparr> code = UNKNOWN_PROVIDER,
                error_message = ''Nenhum adapter registrado pode processar este payload'',
                details = RegistryDetails (getRegisteredProviders reg) (js_typeof payload)
                            (getPayloadKeys payload) \<rparr>)
        | Some adapter \<Rightarrow>
            (case normalize adapter e payload of
               Inl err \<Rightarrow>
                 Inr (Failure
                   \<lparr> code = PROCESSING_ERROR,
                     error_message = ''Erro ao processar payload com adapter ''
                        @ provider_name (adapter_provider adapter),
                     details = ErrorMessage err \<rparr>)
             | Inr r \<Rightarrow> Inr r)))"

section \<open>The example payloads\<close>

definition Joao_Silva :: string where
  "Joao_Silva = ''Jo'' @ [CHR 0xE3] @ ''o Silva''"

definition Ola :: string where
  "Ola = ''Ol'' @ [CHR 0xE1]"

definition Ola_produto :: string where
  "Ola_produto = Ola @ '', gostaria de saber mais sobre o produto''"

text \<open>The Meta example of the specification.\<close>

definition meta_example :: jsval where
  "meta_example =
     JObj [(''object'', JStr ''whatsapp_business_account''),
           (''entry'', JArr [JObj [(''changes'', JArr [JObj [(''value'', JObj [
              (''metadata'', JObj [(''display_phone_number'', JStr ''5511999999999''),
                                   (''phone_number_id'', JStr ''PHONE_NUMBER_ID'')]),
              (''contacts'', JArr [JObj [(''profile'', JObj [(''name'', JStr Joao_Silva)]),
                                         (''wa_id'', JStr ''5511988888888'')]]),
              (''messages'', JArr [JObj [(''from'', JStr ''5511988888888''),
                                         (''id'', JStr ''wamid.ABC''),
                                         (''timestamp'', JStr ''1677234567''),
                                         (''type'', JStr ''text''),
                                         (''text'', JObj [(''body'', JStr Ola)])]])])]])]])]"

text \<open>The three payloads of the test suite.\<close>

definition metaPayload :: jsval where
  "metaPayload =
     JObj [(''object'', JStr ''whatsapp_business_account''),
           (''entry'', JArr [JObj [
              (''id'', JStr ''WHATSAPP_BUSINESS_ACCOUNT_ID''),
              (''changes'', JArr [JObj [
                 (''value'', JObj [
                    (''messaging_product'', JStr ''whatsapp''),
                    (''metadata'', JObj [(''display_phone_number'', JStr ''5511999999999''),
                                         (''phone_number_id'', JStr ''PHONE_NUMBER_ID'')]),
                    (''contacts'', JArr [JObj [
                       (''profile'', JObj [(''name'', JStr Joao_Silva)]),
                       (''wa_id'', JStr ''5511988888888'')]]),
                    (''messages'', JArr [JObj [
                       (''from'', JStr ''5511988888888''),
                       (''id'', JStr ''wamid.HBgNNTUxMTk5OTk5OTk5ORUCABIYFjNFQjBCNkU3''),
                       (''timestamp'', JStr ''1677234567''),
                       (''type'', JStr ''text''),
                       (''text'', JObj [(''body'', JStr Ola_produto)])]])]),
                 (''field'', JStr ''messages'')]])]])]"

definition evolutionPayload :: jsval where
  "evolutionPayload =
     JObj [(''event'', JStr ''messages.upsert''),
           (''instance'', JStr ''minha-instancia''),
           (''data'', JObj [
              (''key'', JObj [(''remoteJid'', JStr ''5511988888888@s.whatsapp.net''),
                              (''fromMe'', JBool False),
                              (''id'', JStr ''3EB0B430B6F8C1D073A0'')]),
              (''pushName'', JStr Joao_Silva),
              (''message'', JObj [(''conversation'', JStr Ola_produto)]),
              (''messageType'', JStr ''conversation''),
              (''messageTimestamp'', JNum 1677234567)]),
           (''destination'', JStr ''5511999999999@s.whatsapp.net''),
           (''date_time'', JStr ''2024-01-15T10:30:00.000Z''),
           (''sender'', JStr ''5511988888888@s.whatsapp.net''),
           (''server_url'', JStr ''https://sua-evolution-api.com''),
           (''apikey'', JStr ''sua-api-key'')]"

definition zapiPayload :: jsval where
  "zapiPayload =
     JObj [(''instanceId'', JStr ''SUA_INSTANCE_ID''),
           (''messageId'', JStr ''3EB0B430B6F8C1D073A0''),
           (''phone'', JStr ''5511988888888''),
           (''fromMe'', JBool False),
           (''momment'', JNum 1677234567000),
           (''status'', JStr ''RECEIVED''),
           (''chatName'', JStr Joao_Silva),
           (''senderPhoto'', JStr ''https://pps.whatsapp.net/...''),
           (''senderName'', JStr Joao_Silva),
           (''participantPhone'', JNull),
           (''photo'', JStr ''https://pps.whatsapp.net/...''),
           (''broadcast'', JBool False),
           (''type'', JStr ''ReceivedCallback''),
           (''text'', JObj [(''message'', JStr Ola_produto)])]"

text \<open>
  The messages the adapters build from the example payloads; the test suite checks their
  provider, direction, text, sender and timestamp.
\<close>

definition meta_example_message :: "env \<Rightarrow> normalized_message" where
  "meta_example_message e =
     \<lparr> message_id = generateId e,
       externalId = JStr ''wamid.ABC'',
       provider = Meta,
       instanceId = JStr ''PHONE_NUMBER_ID'',
       timestamp = JNum 1677234567000,
       direction = Inbound,
       status = Received,
       from_contact = \<lparr> phoneNumber = ''5511988888888'', name = JStr Joao_Silva,
                        profilePicUrl = JUndefined \<rparr>,
       to_contact = \<lparr> phoneNumber = ''5511999999999'', name = JNull,
                      profilePicUrl = JUndefined \<rparr>,
       content = (content_of Text) \<lparr> content_text := JStr Ola \<rparr>,
       rawPayload = meta_example,
       metadata = [(''businessAccountId'', JUndefined),
                   (''phoneNumberId'', JStr ''PHONE_NUMBER_ID'')] \<rparr>"

definition evolution_example_message :: "env \<Rightarrow> normalized_message" where
  "evolution_example_message e =
     \<lparr> message_id = generateId e,
       externalId = JStr ''3EB0B430B6F8C1D073A0'',
       provider = Evolution,
       instanceId = JStr ''minha-instancia'',
       timestamp = JNum 1677234567000,
       direction = Inbound,
       status = Received,
       from_contact = \<lparr> phoneNumber = ''5511988888888'', name = JStr Joao_Silva,
                        profilePicUrl = JUndefined \<rparr>,
       to_contact = \<lparr> phoneNumber = ''5511999999999'', name = JNull,
                      profilePicUrl = JUndefined \<rparr>,
       content = (content_of Text) \<lparr> content_text := JStr Ola_produto \<rparr>,
       rawPayload = evolutionPayload,
       metadata = [(''event'', JStr ''messages.upsert''),
                   (''serverUrl'', JStr ''https://sua-evolution-api.com''),
                   (''dateTime'', JStr ''2024-01-15T10:30:00.000Z'')] \<rparr>"

definition zapi_example_message :: "env \<Rightarrow> normalized_message" where
  "zapi_example_message e =
     \<lparr> message_id = generateId e,
       externalId = JStr ''3EB0B430B6F8C1D073A0'',
       provider = ZApi,
       instanceId = JStr ''SUA_INSTANCE_ID'',
       timestamp = JNum 1677234567000,
       direction = Inbound,
       status = Received,
       from_contact = \<lparr> phoneNumber = ''5511988888888'', name = JStr Joao_Silva,
                        profilePicUrl = JStr ''https://pps.whatsapp.net/...'' \<rparr>,
       to_contact = \<lparr> phoneNumber = [], name = JNull, profilePicUrl = JUndefined \<rparr>,
       content = (content_of Text) \<lparr> content_text := JStr Ola_produto \<rparr>,
       rawPayload = zapiPayload,
       metadata = [(''type'', JStr ''ReceivedCallback''), (''broadcast'', JBool False),
                   (''participantPhone'', JNull)] \<rparr>"

text \<open>Payloads that stop at each stage of \<open>normalize\<close>.\<close>

definition meta_no_messages :: jsval where
  \<comment> \<open>Meta-shaped, with neither \<open>messages\<close> nor \<open>statuses\<close>\<close>
  "meta_no_messages =
     JObj [(''object'', JStr ''whatsapp_business_account''),
           (''entry'', JArr [JObj [(''changes'', JArr [JObj [(''value'', JObj [
              (''metadata'', JObj [(''display_phone_number'', JStr ''123''),
                                   (''phone_number_id'', JStr ''abc'')])])]])]])]"

definition meta_null_message :: jsval where
  \<comment> \<open>\<open>messages: [null]\<close>\<close>
  "meta_null_message =
     JObj [(''object'', JStr ''whatsapp_business_account''),
           (''entry'', JArr [JObj [(''changes'', JArr [JObj [(''value'', JObj [
              (''metadata'', JObj [(''display_phone_number'', JStr ''123''),
                                   (''phone_number_id'', JStr ''abc'')]),
              (''messages'', JArr [JNull])])]])]])]"

definition evolution_no_jid :: jsval where
  "evolution_no_jid =
     JObj [(''event'', JStr ''messages.upsert''), (''instance'', JStr ''minha-instancia''),
           (''data'', JObj [(''key'', JObj [(''fromMe'', JBool False)])])]"

definition evolution_numeric_jid :: jsval where
  \<comment> \<open>\<open>remoteJid\<close> is a number, on which \<open>replace\<close> is not a function\<close>
  "evolution_numeric_jid =
     JObj [(''event'', JStr ''messages.upsert''), (''instance'', JStr ''minha-instancia''),
           (''data'', JObj [
              (''key'', JObj [(''remoteJid'', JNum 5511988888888), (''fromMe'', JBool False),
                              (''id'', JStr ''3EB0B430B6F8C1D073A0'')]),
              (''messageTimestamp'', JNum 1677234567)])]"

definition zapi_empty_id :: jsval where
  "zapi_empty_id =
     JObj [(''instanceId'', JStr ''SUA_INSTANCE_ID''), (''messageId'', JStr []),
           (''phone'', JStr ''5511988888888''), (''momment'', JNum 1677234567000)]"

definition zapi_numeric_status :: jsval where
  \<comment> \<open>sent by the account, with a \<open>status\<close> on which \<open>toUpperCase\<close> is not a function\<close>
  "zapi_numeric_status =
     JObj [(''instanceId'', JStr ''SUA_INSTANCE_ID''),
           (''messageId'', JStr ''3EB0B430B6F8C1D073A0''),
           (''phone'', JStr ''5511988888888''), (''fromMe'', JBool True),
           (''momment'', JNum 1677234567000), (''status'', JNum 3)]"

definition foo_bar :: jsval where
  \<comment> \<open>\<open>{ foo: "bar" }\<close>\<close>
  "foo_bar = JObj [(''foo'', JStr ''bar'')]"

definition env0 :: env where
  "env0 = \<lparr> now = 1677234567000, random36 = ''0.4fzyo82mvyr'' \<rparr>"

text \<open>
  A custom adapter whose \<open>canHandle\<close> is \<open>(p) => p.custom.enabled === true\<close> and whose
  \<open>normalize\<close> reports that it processes nothing.
\<close>

definition strict_custom_adapter :: webhook_adapter where
  "strict_custom_adapter =
     \<lparr> adapter_provider = Custom ''custom'',
       canHandle = (\<lambda>p.
         bindE (js_get p ''custom'') (\<lambda>c.
         bindE (js_get c ''enabled'') (\<lambda>x. Inr (x = JBool True)))),
       normalize = (\<lambda>e p. Inr (createError UNSUPPORTED_MESSAGE_TYPE ''custom'' NoDetails)),
       validate = (\<lambda>p. Inr True) \<rparr>"

text \<open>Payloads that are normalised with an empty identifier or a time that is not positive.\<close>

definition meta_blank_id :: jsval where
  \<comment> \<open>the Meta example with \<open>id: ""\<close> and \<open>timestamp: "0"\<close>\<close>
  "meta_blank_id =
     JObj [(''object'', JStr ''whatsapp_business_account''),
           (''entry'', JArr [JObj [(''changes'', JArr [JObj [(''value'', JObj [
              (''metadata'', JObj [(''display_phone_number'', JStr ''5511999999999''),
                                   (''phone_number_id'', JStr ''PHONE_NUMBER_ID'')]),
              (''messages'', JArr [JObj [(''from'', JStr ''5511988888888''),
                                         (''id'', JStr []),
                                         (''timestamp'', JStr ''0''),
                                         (''type'', JStr ''text''),
                                         (''text'', JObj [(''body'', JStr ''oi'')])]])])]])]])]"

definition evolution_zero_time :: jsval where
  \<comment> \<open>\<open>messageTimestamp: 0\<close>\<close>
  "evolution_zero_time =
     JObj [(''event'', JStr ''messages.upsert''), (''instance'', JStr ''minha-instancia''),
           (''data'', JObj [
              (''key'', JObj [(''remoteJid'', JStr ''5511988888888@s.whatsapp.net''),
                              (''fromMe'', JBool False),
                              (''id'', JStr ''3EB0B430B6F8C1D073A0'')]),
              (''message'', JObj [(''conversation'', JStr ''oi'')]),
              (''messageType'', JStr ''conversation''),
              (''messageTimestamp'', JNum 0)]),
           (''destination'', JStr ''5511999999999@s.whatsapp.net'')]"

definition zapi_negative_time :: jsval where
  \<comment> \<open>\<open>momment: -1\<close>\<close>
  "zapi_negative_time =
     JObj [(''instanceId'', JStr ''SUA_INSTANCE_ID''),
           (''messageId'', JStr ''3EB0B430B6F8C1D073A0''),
           (''phone'', JStr ''5511988888888''), (''fromMe'', JBool False),
           (''momment'', JNum (- 1)), (''type'', JStr ''ReceivedCallback''),
           (''text'', JObj [(''message'', JStr ''oi'')])]"

section \<open>Notions used to state the properties\<close>

text \<open>The message of a successful result, if the call returned one.\<close>

definition normalized :: "js_exception + normalization_result \<Rightarrow> normalized_message option" where
  "normalized r = (case r of Inr (Success m) \<Rightarrow> Some m | _ \<Rightarrow> None)"

definition nonempty_string :: "jsval \<Rightarrow> bool" where
  "nonempty_string v = (case v of JStr s \<Rightarrow> s \<noteq> [] | _ \<Rightarrow> False)"

definition positive :: "jsval \<Rightarrow> bool" where
  \<comment> \<open>a number greater than 0\<close>
  "positive v = (case v of JNum n \<Rightarrow> 0 < n | _ \<Rightarrow> False)"

text \<open>
  The invariant of a normalised message as the specification words it: a non-empty \<open>id\<close>,
  a non-empty \<open>externalId\<close>, a provider other than \<open>unknown\<close>, a timestamp greater than 0
  and a direction that is \<open>inbound\<close> or \<open>outbound\<close>.
\<close>

definition spec_invariant :: "normalized_message \<Rightarrow> bool" where
  "spec_invariant m =
     (message_id m \<noteq> [] \<and> nonempty_string (externalId m) \<and> provider m \<noteq> UnknownProvider
      \<and> positive (timestamp m) \<and> (direction m = Inbound \<or> direction m = Outbound))"

text \<open>
  The places of a Meta payload that \<open>normalize\<close> reads: \<open>entry[0]\<close>,
  \<open>entry[0].changes[0].value\<close>, and the record the message is built from, which is
  \<open>messages[0]\<close> for an inbound message and \<open>statuses[0]\<close> for a status update.
\<close>

definition meta_entry :: "jsval \<Rightarrow> jsval" where
  "meta_entry p = js_first (js_prop p ''entry'')"

definition meta_value :: "jsval \<Rightarrow> jsval" where
  "meta_value p = js_prop (js_first (js_prop (meta_entry p) ''changes'')) ''value''"

definition meta_record :: "message_direction \<Rightarrow> jsval \<Rightarrow> jsval" where
  "meta_record d p =
     (case d of
        Inbound \<Rightarrow> js_first (js_prop (meta_value p) ''messages'')
      | Outbound \<Rightarrow> js_first (js_prop (meta_value p) ''statuses''))"

text \<open>
  Cutting a Meta payload down to what comes first: only \<open>entry[0]\<close> is kept, in it only
  \<open>changes[0]\<close>, and in its \<open>value\<close> only \<open>messages[0]\<close> and \<open>statuses[0]\<close>. Whatever is not
  an array is left as it is.
\<close>

definition first_only :: "jsval \<Rightarrow> jsval" where
  "first_only v = (case v of JArr (x # xs) \<Rightarrow> JArr [x] | _ \<Rightarrow> v)"

definition on_first :: "(jsval \<Rightarrow> jsval) \<Rightarrow> jsval \<Rightarrow> jsval" where
  "on_first f v = (case v of JArr (x # xs) \<Rightarrow> JArr (f x # xs) | _ \<Rightarrow> v)"

definition on_field :: "string \<Rightarrow> (jsval \<Rightarrow> jsval) \<Rightarrow> jsval \<Rightarrow> jsval" where
  "on_field k f v =
     (case v of
        JObj kvs \<Rightarrow> JObj (map (\<lambda>(k', x). if k' = k then (k', f x) else (k', x)) kvs)
      | _ \<Rightarrow> v)"

definition value_first_only :: "jsval \<Rightarrow> jsval" where
  "value_first_only v = on_field ''messages'' first_only (on_field ''statuses'' first_only v)"

definition change_first_only :: "jsval \<Rightarrow> jsval" where
  "change_first_only c = on_field ''value'' value_first_only c"

definition changes_first_only :: "jsval \<Rightarrow> jsval" where
  "changes_first_only cs = first_only (on_first change_first_only cs)"

definition entry_first_only :: "jsval \<Rightarrow> jsval" where
  "entry_first_only en = on_field ''changes'' changes_first_only en"

definition entries_first_only :: "jsval \<Rightarrow> jsval" where
  "entries_first_only es = first_only (on_first entry_first_only es)"

definition meta_first_only :: "jsval \<Rightarrow> jsval" where
  "meta_first_only p = on_field ''entry'' entries_first_only p"

text \<open>A result with the field \<open>rawPayload\<close> of its message replaced.\<close>

definition with_rawPayload ::
  "jsval \<Rightarrow> js_exception + normalization_result \<Rightarrow> js_exception + normalization_result" where
  "with_rawPayload q r =
     (case r of Inr (Success m) \<Rightarrow> Inr (Success (m \<lparr> rawPayload := q \<rparr>)) | _ \<Rightarrow> r)"

text \<open>
  A batched delivery: the Meta example of the specification, followed by a second message
  and a status in the same \<open>value\<close>, a second change and a second entry.
\<close>

definition meta_batch :: jsval where
  "meta_batch =
     JObj [(''object'', JStr ''whatsapp_business_account''),
           (''entry'', JArr [
              JObj [(''changes'', JArr [
                 JObj [(''value'', JObj [
                    (''metadata'', JObj [(''display_phone_number'', JStr ''5511999999999''),
                                         (''phone_number_id'', JStr ''PHONE_NUMBER_ID'')]),
                    (''contacts'', JArr [JObj [
                       (''profile'', JObj [(''name'', JStr Joao_Silva)]),
                       (''wa_id'', JStr ''5511988888888'')]]),
                    (''messages'', JArr [
                       JObj [(''from'', JStr ''5511988888888''), (''id'', JStr ''wamid.ABC''),
                             (''timestamp'', JStr ''1677234567''), (''type'', JStr ''text''),
                             (''text'', JObj [(''body'', JStr Ola)])],
                       JObj [(''from'', JStr ''5511977777777''), (''id'', JStr ''wamid.DEF''),
                             (''timestamp'', JStr ''1677234570''), (''type'', JStr ''text''),
                             (''text'', JObj [(''body'', JStr ''oi'')])]])])],
                 JObj [(''value'', JObj [
                    (''statuses'', JArr [
                       JObj [(''id'', JStr ''wamid.GHI''), (''status'', JStr ''read''),
                             (''timestamp'', JStr ''1677234580''),
                             (''recipient_id'', JStr ''5511966666666'')]])])]])],
              JObj [(''changes'', JArr [])]])]"

section \<open>Phone-number canonicalisation\<close>

lemma replace_wa_suffix_no_at:
  "CHR ''@'' \<notin> set s \<Longrightarrow> replace_wa_suffix s = s"
  by (induction s) auto

lemma is_digit_not_at: "is_digit c \<Longrightarrow> c \<noteq> CHR ''@''"
  by (auto simp: is_digit_def)

lemma digits_no_at: "list_all is_digit s \<Longrightarrow> CHR ''@'' \<notin> set s"
  by (induction s) (auto dest: is_digit_not_at)

lemma helpers_on_digits:
  assumes "list_all is_digit s" and "\<not> (length s = 11 \<and> take 2 s = ''11'')"
  shows "helpers_normalizePhoneNumber s = s"
proof (cases "s = []")
  case True
  then show ?thesis by (simp add: helpers_normalizePhoneNumber_def)
next
  case False
  have "replace_wa_suffix s = s"
    using assms(1) by (simp add: replace_wa_suffix_no_at digits_no_at)
  moreover have "filter is_digit s = s"
    using assms(1) by (simp add: list_all_iff cong: filter_cong)
  ultimately show ?thesis
    using assms(2) False by (simp add: helpers_normalizePhoneNumber_def Let_def)
qed

lemma helpers_normalizePhoneNumber_idempotent:
  "helpers_normalizePhoneNumber (helpers_normalizePhoneNumber x) = helpers_normalizePhoneNumber x"
proof (cases "x = []")
  case True
  then show ?thesis by (simp add: helpers_normalizePhoneNumber_def)
next
  case False
  define d where "d = filter is_digit (replace_wa_suffix x)"
  have dig: "list_all is_digit d"
    by (simp add: d_def list_all_iff)
  show ?thesis
  proof (cases "length d = 11 \<and> take 2 d = ''11''")
    case True
    then have r: "helpers_normalizePhoneNumber x = ''55'' @ d"
      using False by (simp add: helpers_normalizePhoneNumber_def d_def Let_def)
    have "list_all is_digit (''55'' @ d)"
      using dig by (simp add: is_digit_def)
    moreover have "length (''55'' @ d) \<noteq> 11"
      using True by simp
    ultimately show ?thesis
      unfolding r by (intro helpers_on_digits) simp_all
  next
    case nopre: False
    then have r: "helpers_normalizePhoneNumber x = d"
      using False by (simp add: helpers_normalizePhoneNumber_def d_def Let_def)
    show ?thesis
      unfolding r using dig nopre by (rule helpers_on_digits)
  qed
qed

text \<open>
  The adapters' \<open>normalizePhoneNumber\<close> returns digits and \<open>+\<close> only, and it leaves such a
  string alone unless the string begins with \<open>+\<close>: a second application changes the
  result of the first only when that result still begins with \<open>+\<close>.
\<close>

lemma set_replace_leading_plus: "set (replace_leading_plus s) \<subseteq> set s"
  by (cases s) (auto simp: replace_leading_plus_def)

lemma normalizePhoneNumber_str_chars:
  assumes "c \<in> set (normalizePhoneNumber_str x)"
  shows "is_digit c \<or> c = CHR ''+''"
proof (cases "x = []")
  case True
  with assms show ?thesis by (simp add: normalizePhoneNumber_str_def)
next
  case False
  with assms have "c \<in> set (replace_leading_plus
      (filter (\<lambda>c. is_digit c \<or> c = CHR ''+'') (replace_wa_suffix x)))"
    by (simp add: normalizePhoneNumber_str_def Let_def)
  then have "c \<in> set (filter (\<lambda>c. is_digit c \<or> c = CHR ''+'') (replace_wa_suffix x))"
    using set_replace_leading_plus by blast
  then show ?thesis by simp
qed

lemma normalizePhoneNumber_str_stable:
  assumes chars: "\<forall>c \<in> set r. is_digit c \<or> c = CHR ''+''"
    and head: "r = [] \<or> hd r \<noteq> CHR ''+''"
  shows "normalizePhoneNumber_str r = r"
proof (cases "r = []")
  case True
  then show ?thesis by (simp add: normalizePhoneNumber_str_def)
next
  case False
  have "CHR ''@'' \<notin> set r"
  proof
    assume "CHR ''@'' \<in> set r"
    with chars have "is_digit CHR ''@'' \<or> CHR ''@'' = CHR ''+''" by blast
    then show False by (simp add: is_digit_def)
  qed
  then have a: "replace_wa_suffix r = r"
    by (rule replace_wa_suffix_no_at)
  have b: "filter (\<lambda>c. is_digit c \<or> c = CHR ''+'') r = r"
    using chars by (simp cong: filter_cong)
  have c: "replace_leading_plus r = r"
    using head False by (cases r) (simp_all add: replace_leading_plus_def)
  show ?thesis
    using False by (simp add: normalizePhoneNumber_str_def a b c)
qed

lemma normalizePhoneNumber_str_idempotent_unless_plus:
  assumes "normalizePhoneNumber_str x = [] \<or> hd (normalizePhoneNumber_str x) \<noteq> CHR ''+''"
  shows "normalizePhoneNumber_str (normalizePhoneNumber_str x) = normalizePhoneNumber_str x"
proof (rule normalizePhoneNumber_str_stable)
  show "\<forall>c \<in> set (normalizePhoneNumber_str x). is_digit c \<or> c = CHR ''+''"
    using normalizePhoneNumber_str_chars by blast
  show "normalizePhoneNumber_str x = [] \<or> hd (normalizePhoneNumber_str x) \<noteq> CHR ''+''"
    by (rule assms)
qed

text \<open>
  C6, at the input \<open>++1\<close>: the adapters' \<open>normalizePhoneNumber\<close> keeps every \<open>+\<close> and then
  removes a single leading one, so the first application returns \<open>+1\<close> and the second
  returns \<open>1\<close>: the canonicalisation is not idempotent there.
\<close>

theorem normalizePhoneNumber_base_not_idempotent:
  "normalizePhoneNumber_str ''++1'' = ''+1'' \<and>
   normalizePhoneNumber_str (normalizePhoneNumber_str ''++1'') = ''1'' \<and>
   normalizePhoneNumber_str (normalizePhoneNumber_str ''++1'') \<noteq> normalizePhoneNumber_str ''++1''"
  by (simp add: normalizePhoneNumber_str_def replace_leading_plus_def is_digit_def)

section \<open>Basic facts about the fragment\<close>

lemma bindE_simps [simp]: "bindE (Inr x) f = f x" "bindE (Inl e) f = Inl e"
  by (simp_all add: bindE_def)

lemma bindE_eq_Inr: "bindE m f = Inr y \<longleftrightarrow> (\<exists>x. m = Inr x \<and> f x = Inr y)"
  by (cases m) simp_all

lemma isObject_iff: "isObject v \<longleftrightarrow> (\<exists>kvs. v = JObj kvs)"
  by (cases v) (simp_all add: isObject_def)

lemma isObject_simps [simp]:
  "isObject (JObj kvs)" "\<not> isObject JUndefined" "\<not> isObject JNull" "\<not> isObject (JBool b)"
  "\<not> isObject (JNum n)" "\<not> isObject JNaN" "\<not> isObject (JStr s)" "\<not> isObject (JArr xs)"
  by (simp_all add: isObject_def)

lemma js_get_object [simp]: "js_get (JObj kvs) k = Inr (own_property kvs k)"
  by (simp add: js_get_def nullish_def)

lemma js_gt_length: "js_gt (JNum (int (length xs))) 0 = Inr (xs \<noteq> [])"
  by (simp add: js_gt_def)

section \<open>Detection\<close>

lemma meta_canHandle_eq:
  "meta_canHandle p = Inr (isObject p \<and> js_prop p ''object'' = JStr ''whatsapp_business_account''
      \<and> isArray (js_prop p ''entry'') \<and> js_prop p ''entry'' \<noteq> JArr [])"
proof (cases "isObject p")
  case False
  then show ?thesis by (simp add: meta_canHandle_def)
next
  case True
  then obtain kvs where p: "p = JObj kvs" by (auto simp: isObject_iff)
  show ?thesis
    by (cases "own_property kvs ''entry''")
       (simp_all add: p meta_canHandle_def js_get_def nullish_def js_gt_length)
qed

lemma evolution_canHandle_eq:
  "evolution_canHandle p = Inr (isObject p \<and> js_typeof (js_prop p ''event'') = ''string''
      \<and> js_typeof (js_prop p ''instance'') = ''string'' \<and> isObject (js_prop p ''data'')
      \<and> isObject (js_prop (js_prop p ''data'') ''key''))"
proof (cases "isObject p")
  case False
  then show ?thesis by (simp add: evolution_canHandle_def)
next
  case True
  then obtain kvs where p: "p = JObj kvs" by (auto simp: isObject_iff)
  show ?thesis
    by (auto simp: p evolution_canHandle_def isObject_iff)
qed

lemma zapi_canHandle_eq:
  "zapi_canHandle p = Inr (isObject p \<and> js_typeof (js_prop p ''instanceId'') = ''string''
      \<and> js_typeof (js_prop p ''messageId'') = ''string''
      \<and> js_typeof (js_prop p ''phone'') = ''string''
      \<and> js_typeof (js_prop p ''momment'') = ''number'')"
proof (cases "isObject p")
  case False
  then show ?thesis by (simp add: zapi_canHandle_def)
next
  case True
  then obtain kvs where p: "p = JObj kvs" by (auto simp: isObject_iff)
  show ?thesis
    by (auto simp: p zapi_canHandle_def)
qed

text \<open>
  C8: for each of the three adapters and every value, \<open>canHandle\<close> returns a boolean and
  never throws. It returns \<open>true\<close> exactly on an object (not \<open>null\<close>, not an array) that
  carries the structural markers of the provider, and \<open>false\<close> on everything else: the
  last three lines spell this out for \<open>null\<close>, \<open>undefined\<close>, arrays, the empty object,
  strings, numbers and booleans.
\<close>

theorem canHandle_total:
  "meta_canHandle p = Inr (isObject p \<and> js_prop p ''object'' = JStr ''whatsapp_business_account''
      \<and> isArray (js_prop p ''entry'') \<and> js_prop p ''entry'' \<noteq> JArr [])
   \<and> evolution_canHandle p = Inr (isObject p \<and> js_typeof (js_prop p ''event'') = ''string''
      \<and> js_typeof (js_prop p ''instance'') = ''string'' \<and> isObject (js_prop p ''data'')
      \<and> isObject (js_prop (js_prop p ''data'') ''key''))
   \<and> zapi_canHandle p = Inr (isObject p \<and> js_typeof (js_prop p ''instanceId'') = ''string''
      \<and> js_typeof (js_prop p ''messageId'') = ''string''
      \<and> js_typeof (js_prop p ''phone'') = ''string''
      \<and> js_typeof (js_prop p ''momment'') = ''number'')
   \<and> map meta_canHandle [JNull, JUndefined, JArr xs, JObj [], JStr s, JNum n, JNaN, JBool b]
        = replicate 8 (Inr False)
   \<and> map evolution_canHandle [JNull, JUndefined, JArr xs, JObj [], JStr s, JNum n, JNaN, JBool b]
        = replicate 8 (Inr False)
   \<and> map zapi_canHandle [JNull, JUndefined, JArr xs, JObj [], JStr s, JNum n, JNaN, JBool b]
        = replicate 8 (Inr False)"
  by (simp add: meta_canHandle_eq evolution_canHandle_eq zapi_canHandle_eq own_property_def
      eval_nat_numeral)

text \<open>
  C7: on the example payload of each provider (the three payloads of the test suite, and
  the Meta example of the specification) the provider's own adapter returns \<open>true\<close> and
  each of the other two adapters returns \<open>false\<close>.
\<close>

theorem canHandle_examples_exclusive:
  "meta_canHandle metaPayload = Inr True
   \<and> evolution_canHandle metaPayload = Inr False \<and> zapi_canHandle metaPayload = Inr False
   \<and> evolution_canHandle evolutionPayload = Inr True
   \<and> meta_canHandle evolutionPayload = Inr False \<and> zapi_canHandle evolutionPayload = Inr False
   \<and> zapi_canHandle zapiPayload = Inr True
   \<and> meta_canHandle zapiPayload = Inr False \<and> evolution_canHandle zapiPayload = Inr False
   \<and> meta_canHandle meta_example = Inr True
   \<and> evolution_canHandle meta_example = Inr False \<and> zapi_canHandle meta_example = Inr False"
  by (simp add: meta_canHandle_eq evolution_canHandle_eq zapi_canHandle_eq own_property_def
      metaPayload_def evolutionPayload_def zapiPayload_def meta_example_def)


section \<open>Evaluation on the examples\<close>

lemmas js_access_defs = js_get_def js_get0_def js_opt_def js_opt0_def nullish_def own_property_def
  js_or_def

lemmas number_defs = parseInt_def parseInt_str_def is_space_def is_radix_digit_def digit_value_def
  radix_value_def js_mul_def js_gt_def js_lt_def Let_def

lemmas phone_defs = normalizePhoneNumber_def normalizePhoneNumber_str_def replace_leading_plus_def
  is_digit_def is_suffix_char_def

lemma meta_example_validate: "meta_validate meta_example = Inr True"
  by (simp add: meta_validate_def meta_validate_body_def meta_canHandle_eq meta_example_def
      js_access_defs Let_def)

lemma meta_example_extract:
  "meta_extract e meta_example = Inr (Success (meta_example_message e))"
proof -
  have j: "Joao_Silva \<noteq> []" and o: "Ola \<noteq> []"
    by (simp_all add: Joao_Silva_def Ola_def)
  show ?thesis
    unfolding meta_extract_def meta_inbound_def meta_example_message_def meta_example_def
    by (simp add: js_access_defs number_defs phone_defs has_items_def createSuccess_def
        meta_extractContent_def meta_mapMessageType_def j o)
qed

text \<open>
  C5: on the Meta example payload of the specification, \<open>normalize\<close> succeeds with
  provider \<open>meta\<close>, direction \<open>inbound\<close>, a text content whose text is \<open>Ola\<close> (the word with its
  accented last letter), the sender's phone number \<open>5511988888888\<close> and the timestamp
  \<open>1677234567000\<close>, whatever the clock and the random source are.
\<close>

theorem meta_example_normalized:
  "\<exists>m. meta_normalize e meta_example = Inr (Success m)
     \<and> provider m = Meta \<and> direction m = Inbound
     \<and> content_type (content m) = Text \<and> content_text (content m) = JStr Ola
     \<and> phoneNumber (from_contact m) = ''5511988888888''
     \<and> timestamp m = JNum 1677234567000"
  by (simp add: meta_normalize_def meta_canHandle_eq meta_example_validate meta_example_extract
      meta_example_message_def content_of_def)
     (simp add: meta_example_def own_property_def)


section \<open>The staged error contract of \<open>normalize\<close>\<close>

lemma meta_validate_total: "\<exists>b. meta_validate p = Inr b"
  by (auto simp: meta_validate_def meta_canHandle_eq split: sum.split)

lemma evolution_validate_total: "\<exists>b. evolution_validate p = Inr b"
  by (auto simp: evolution_validate_def evolution_canHandle_eq split: sum.split)

lemma zapi_validate_total: "\<exists>b. zapi_validate p = Inr b"
  by (auto simp: zapi_validate_def zapi_canHandle_eq split: sum.split)

lemma meta_normalize_total: "\<exists>r. meta_normalize e p = Inr r"
  using meta_validate_total [of p]
  by (auto simp: meta_normalize_def meta_canHandle_eq split: sum.split)

lemma evolution_normalize_total: "\<exists>r. evolution_normalize e p = Inr r"
  using evolution_validate_total [of p]
  by (auto simp: evolution_normalize_def evolution_canHandle_eq split: sum.split)

lemma zapi_normalize_total: "\<exists>r. zapi_normalize e p = Inr r"
  using zapi_validate_total [of p]
  by (auto simp: zapi_normalize_def zapi_canHandle_eq split: sum.split)

text \<open>
  C3: for each of the three adapters and every payload, \<open>normalize\<close> returns a result and
  never throws; when \<open>canHandle\<close> is false the result is a failure with code
  \<open>INVALID_PAYLOAD\<close>; when \<open>canHandle\<close> is true and \<open>validate\<close> is false it is a failure with
  code \<open>MISSING_REQUIRED_FIELD\<close>; and when the extraction inside the \<open>try\<close> block throws, it
  is a failure with code \<open>PARSE_ERROR\<close> whose details carry the exception caught.
\<close>

theorem normalize_staged_errors:
  "(meta_canHandle p = Inr False \<longrightarrow>
      (\<exists>msg. meta_normalize e p = Inr (createError INVALID_PAYLOAD msg NoDetails)))
   \<and> (meta_canHandle p = Inr True \<and> meta_validate p = Inr False \<longrightarrow>
      (\<exists>msg. meta_normalize e p = Inr (createError MISSING_REQUIRED_FIELD msg NoDetails)))
   \<and> (meta_canHandle p = Inr True \<and> meta_validate p = Inr True \<and> meta_extract e p = Inl err \<longrightarrow>
      (\<exists>msg. meta_normalize e p = Inr (createError PARSE_ERROR msg (ErrorMessage err))))
   \<and> (\<exists>r. meta_normalize e p = Inr r)
   \<and> (evolution_canHandle p = Inr False \<longrightarrow>
      (\<exists>msg. evolution_normalize e p = Inr (createError INVALID_PAYLOAD msg NoDetails)))
   \<and> (evolution_canHandle p = Inr True \<and> evolution_validate p = Inr False \<longrightarrow>
      (\<exists>msg. evolution_normalize e p = Inr (createError MISSING_REQUIRED_FIELD msg NoDetails)))
   \<and> (evolution_canHandle p = Inr True \<and> evolution_validate p = Inr True
        \<and> evolution_extract e p = Inl err \<longrightarrow>
      (\<exists>msg. evolution_normalize e p = Inr (createError PARSE_ERROR msg (ErrorMessage err))))
   \<and> (\<exists>r. evolution_normalize e p = Inr r)
   \<and> (zapi_canHandle p = Inr False \<longrightarrow>
      (\<exists>msg. zapi_normalize e p = Inr (createError INVALID_PAYLOAD msg NoDetails)))
   \<and> (zapi_canHandle p = Inr True \<and> zapi_validate p = Inr False \<longrightarrow>
      (\<exists>msg. zapi_normalize e p = Inr (createError MISSING_REQUIRED_FIELD msg NoDetails)))
   \<and> (zapi_canHandle p = Inr True \<and> zapi_validate p = Inr True \<and> zapi_extract e p = Inl err \<longrightarrow>
      (\<exists>msg. zapi_normalize e p = Inr (createError PARSE_ERROR msg (ErrorMessage err))))
   \<and> (\<exists>r. zapi_normalize e p = Inr r)"
  using meta_normalize_total [of e p] evolution_normalize_total [of e p]
    zapi_normalize_total [of e p]
  by (auto simp: meta_normalize_def evolution_normalize_def zapi_normalize_def)

lemma stage_examples_meta:
  "meta_canHandle (JObj []) = Inr False"
  "meta_canHandle meta_no_messages = Inr True" "meta_validate meta_no_messages = Inr False"
  "meta_canHandle meta_null_message = Inr True" "meta_validate meta_null_message = Inr True"
  "meta_extract e meta_null_message = Inl (ReadOfNullish JNull ''id'')"
  by (simp_all add: meta_canHandle_eq meta_validate_def meta_validate_body_def meta_extract_def
      meta_inbound_def has_items_def meta_no_messages_def meta_null_message_def js_access_defs
      number_defs)

lemma stage_examples_evolution:
  "evolution_canHandle (JObj []) = Inr False"
  "evolution_canHandle evolution_no_jid = Inr True"
  "evolution_validate evolution_no_jid = Inr False"
  "evolution_canHandle evolution_numeric_jid = Inr True"
  "evolution_validate evolution_numeric_jid = Inr True"
  "evolution_extract e evolution_numeric_jid = Inl (NotAFunction ''replace'')"
  by (simp_all add: evolution_canHandle_eq evolution_validate_def evolution_validate_body_def
      evolution_extract_def isMessageEvent_def evolution_no_jid_def evolution_numeric_jid_def
      js_access_defs phone_defs)

lemma stage_examples_zapi:
  "zapi_canHandle (JObj []) = Inr False"
  "zapi_canHandle zapi_empty_id = Inr True" "zapi_validate zapi_empty_id = Inr False"
  "zapi_canHandle zapi_numeric_status = Inr True"
  "zapi_validate zapi_numeric_status = Inr True"
  "zapi_extract e zapi_numeric_status = Inl (NotAFunction ''toUpperCase'')"
  by (simp_all add: zapi_canHandle_eq zapi_validate_def zapi_validate_body_def
      zapi_extract_def zapi_mapStatus_def zapi_empty_id_def zapi_numeric_status_def
      js_access_defs phone_defs)

theorem normalize_staged_errors_witness:
  "meta_canHandle (JObj []) = Inr False
   \<and> (\<exists>msg. meta_normalize env0 (JObj []) = Inr (createError INVALID_PAYLOAD msg NoDetails))
   \<and> meta_canHandle meta_no_messages = Inr True \<and> meta_validate meta_no_messages = Inr False
   \<and> (\<exists>msg. meta_normalize env0 meta_no_messages
          = Inr (createError MISSING_REQUIRED_FIELD msg NoDetails))
   \<and> meta_canHandle meta_null_message = Inr True \<and> meta_validate meta_null_message = Inr True
   \<and> meta_extract env0 meta_null_message = Inl (ReadOfNullish JNull ''id'')
   \<and> (\<exists>msg. meta_normalize env0 meta_null_message
          = Inr (createError PARSE_ERROR msg (ErrorMessage (ReadOfNullish JNull ''id''))))
   \<and> evolution_canHandle (JObj []) = Inr False
   \<and> (\<exists>msg. evolution_normalize env0 (JObj []) = Inr (createError INVALID_PAYLOAD msg NoDetails))
   \<and> evolution_canHandle evolution_no_jid = Inr True
   \<and> evolution_validate evolution_no_jid = Inr False
   \<and> (\<exists>msg. evolution_normalize env0 evolution_no_jid
          = Inr (createError MISSING_REQUIRED_FIELD msg NoDetails))
   \<and> evolution_canHandle evolution_numeric_jid = Inr True
   \<and> evolution_validate evolution_numeric_jid = Inr True
   \<and> evolution_extract env0 evolution_numeric_jid = Inl (NotAFunction ''replace'')
   \<and> (\<exists>msg. evolution_normalize env0 evolution_numeric_jid
          = Inr (createError PARSE_ERROR msg (ErrorMessage (NotAFunction ''replace''))))
   \<and> zapi_canHandle (JObj []) = Inr False
   \<and> (\<exists>msg. zapi_normalize env0 (JObj []) = Inr (createError INVALID_PAYLOAD msg NoDetails))
   \<and> zapi_canHandle zapi_empty_id = Inr True \<and> zapi_validate zapi_empty_id = Inr False
   \<and> (\<exists>msg. zapi_normalize env0 zapi_empty_id
          = Inr (createError MISSING_REQUIRED_FIELD msg NoDetails))
   \<and> zapi_canHandle zapi_numeric_status = Inr True
   \<and> zapi_validate zapi_numeric_status = Inr True
   \<and> zapi_extract env0 zapi_numeric_status = Inl (NotAFunction ''toUpperCase'')
   \<and> (\<exists>msg. zapi_normalize env0 zapi_numeric_status
          = Inr (createError PARSE_ERROR msg (ErrorMessage (NotAFunction ''toUpperCase''))))"
  using normalize_staged_errors [of "JObj []" env0]
    normalize_staged_errors [of meta_no_messages env0]
    normalize_staged_errors [of meta_null_message env0 "ReadOfNullish JNull ''id''"]
    normalize_staged_errors [of evolution_no_jid env0]
    normalize_staged_errors [of evolution_numeric_jid env0 "NotAFunction ''replace''"]
    normalize_staged_errors [of zapi_empty_id env0]
    normalize_staged_errors [of zapi_numeric_status env0 "NotAFunction ''toUpperCase''"]
  by (simp only: stage_examples_meta stage_examples_evolution stage_examples_zapi simp_thms)


section \<open>The registry\<close>

lemma find_in_all_false:
  "\<forall>a \<in> set as. canHandle a payload = Inr False \<Longrightarrow> find_in as payload = Inr None"
  by (induction as) simp_all

lemma new_registry_eq:
  "new_registry = [(Meta, MetaAdapter), (Evolution, EvolutionAdapter), (ZApi, ZApiAdapter)]"
  by (simp add: new_registry_def registerDefaultAdapters_def register_def MetaAdapter_def
      EvolutionAdapter_def ZApiAdapter_def)

text \<open>
  C4: \<open>AdapterRegistry.normalize\<close> returns a failure with code \<open>INVALID_PAYLOAD\<close> on
  \<open>null\<close> and on \<open>undefined\<close>. On any other payload for which the \<open>canHandle\<close> of every
  registered adapter returns \<open>false\<close>, it returns a failure with code \<open>UNKNOWN_PROVIDER\<close>
  whose details hold the registered providers, in registration order, and the keys of
  the payload (for an object, its own top-level keys).
\<close>

theorem registry_normalize_rejections:
  "(payload = JNull \<or> payload = JUndefined \<longrightarrow>
      (\<exists>msg. registry_normalize e reg payload
         = Inr (Failure \<lparr> code = INVALID_PAYLOAD, error_message = msg, details = NoDetails \<rparr>)))
   \<and> (payload \<noteq> JNull \<and> payload \<noteq> JUndefined
        \<and> (\<forall>a \<in> set (map snd reg). canHandle a payload = Inr False) \<longrightarrow>
      (\<exists>msg. registry_normalize e reg payload
         = Inr (Failure \<lparr> code = UNKNOWN_PROVIDER, error_message = msg,
             details = RegistryDetails (getRegisteredProviders reg) (js_typeof payload)
                         (getPayloadKeys payload) \<rparr>)))
   \<and> getRegisteredProviders reg = map fst reg
   \<and> getPayloadKeys (JObj kvs) = map fst kvs"
  by (auto simp: registry_normalize_def findAdapter_def find_in_all_false
      getRegisteredProviders_def getPayloadKeys_def)

lemma foo_bar_unhandled:
  "\<forall>a \<in> set (map snd new_registry). canHandle a foo_bar = Inr False"
  by (simp add: new_registry_eq MetaAdapter_def EvolutionAdapter_def ZApiAdapter_def
      meta_canHandle_eq evolution_canHandle_eq zapi_canHandle_eq foo_bar_def own_property_def)

theorem registry_normalize_rejections_witness:
  "(\<exists>msg. registry_normalize env0 new_registry JNull
      = Inr (Failure \<lparr> code = INVALID_PAYLOAD, error_message = msg, details = NoDetails \<rparr>))
   \<and> (\<exists>msg. registry_normalize env0 new_registry JUndefined
      = Inr (Failure \<lparr> code = INVALID_PAYLOAD, error_message = msg, details = NoDetails \<rparr>))
   \<and> foo_bar \<noteq> JNull \<and> foo_bar \<noteq> JUndefined
   \<and> map (\<lambda>a. canHandle a foo_bar) (map snd new_registry)
        = [Inr False, Inr False, Inr False]
   \<and> (\<exists>msg. registry_normalize env0 new_registry foo_bar
      = Inr (Failure \<lparr> code = UNKNOWN_PROVIDER, error_message = msg,
          details = RegistryDetails [Meta, Evolution, ZApi] ''object'' [''foo''] \<rparr>))"
proof -
  have shape: "foo_bar \<noteq> JNull" "foo_bar \<noteq> JUndefined"
    by (simp_all add: foo_bar_def)
  have keys: "getRegisteredProviders new_registry = [Meta, Evolution, ZApi]"
    "js_typeof foo_bar = ''object''" "getPayloadKeys foo_bar = [''foo'']"
    by (simp_all add: new_registry_eq getRegisteredProviders_def getPayloadKeys_def foo_bar_def)
  have each: "map (\<lambda>a. canHandle a foo_bar) (map snd new_registry)
      = [Inr False, Inr False, Inr False]"
    by (simp add: new_registry_eq MetaAdapter_def EvolutionAdapter_def ZApiAdapter_def
        meta_canHandle_eq evolution_canHandle_eq zapi_canHandle_eq foo_bar_def own_property_def)
  have r1: "\<exists>msg. registry_normalize env0 new_registry JNull
      = Inr (Failure \<lparr> code = INVALID_PAYLOAD, error_message = msg, details = NoDetails \<rparr>)"
    using registry_normalize_rejections [of JNull env0 new_registry] by simp
  have r2: "\<exists>msg. registry_normalize env0 new_registry JUndefined
      = Inr (Failure \<lparr> code = INVALID_PAYLOAD, error_message = msg, details = NoDetails \<rparr>)"
    using registry_normalize_rejections [of JUndefined env0 new_registry] by simp
  have r3: "\<exists>msg. registry_normalize env0 new_registry foo_bar
      = Inr (Failure \<lparr> code = UNKNOWN_PROVIDER, error_message = msg,
          details = RegistryDetails [Meta, Evolution, ZApi] ''object'' [''foo''] \<rparr>)"
  proof -
    from registry_normalize_rejections [of foo_bar env0 new_registry]
    have "\<exists>msg. registry_normalize env0 new_registry foo_bar
        = Inr (Failure \<lparr> code = UNKNOWN_PROVIDER, error_message = msg,
            details = RegistryDetails (getRegisteredProviders new_registry)
                        (js_typeof foo_bar) (getPayloadKeys foo_bar) \<rparr>)"
      using shape foo_bar_unhandled by blast
    then show ?thesis by (simp only: keys)
  qed
  show ?thesis
    by (intro conjI) (rule r1 r2 r3 shape each)+
qed

lemma registry_normalize_wraps_normalize:
  assumes "payload \<noteq> JNull" "payload \<noteq> JUndefined"
    and "findAdapter reg payload = Inr (Some adapter)"
    and "normalize adapter e payload = Inl err"
  shows "registry_normalize e reg payload
    = Inr (Failure \<lparr> code = PROCESSING_ERROR,
        error_message = ''Erro ao processar payload com adapter ''
           @ provider_name (adapter_provider adapter),
        details = ErrorMessage err \<rparr>)"
  using assms by (simp add: registry_normalize_def)

lemma find_in_total:
  "\<forall>a \<in> set as. \<exists>b. canHandle a payload = Inr b \<Longrightarrow> \<exists>r. find_in as payload = Inr r"
  by (induction as) auto

lemma registry_normalize_total_if_canHandle_total:
  assumes "\<forall>a \<in> set (map snd reg). \<exists>b. canHandle a payload = Inr b"
  shows "\<exists>r. registry_normalize e reg payload = Inr r"
proof -
  obtain found where "findAdapter reg payload = Inr found"
    using find_in_total [OF assms] by (auto simp: findAdapter_def)
  then show ?thesis
    by (auto simp: registry_normalize_def split: option.split sum.split)
qed

text \<open>
  C9, at a registry that holds the three built-in adapters and a custom adapter whose
  \<open>canHandle\<close> reads \<open>p.custom.enabled\<close>, on the payload \<open>{ foo: "bar" }\<close>: the three
  built-in adapters decline, the custom \<open>canHandle\<close> throws, and the exception leaves
  \<open>findAdapter\<close> and \<open>AdapterRegistry.normalize\<close>, which returns no result. Only the call of
  the adapter's \<open>normalize\<close> is guarded (lemma \<open>registry_normalize_wraps_normalize\<close>).
\<close>

theorem registry_normalize_canHandle_escapes:
  "findAdapter (register new_registry strict_custom_adapter) foo_bar
     = Inl (ReadOfNullish JUndefined ''enabled'')
   \<and> registry_normalize env0 (register new_registry strict_custom_adapter) foo_bar
     = Inl (ReadOfNullish JUndefined ''enabled'')"
  by (simp add: registry_normalize_def findAdapter_def register_def new_registry_eq
      strict_custom_adapter_def MetaAdapter_def EvolutionAdapter_def ZApiAdapter_def
      meta_canHandle_eq evolution_canHandle_eq zapi_canHandle_eq foo_bar_def
      js_get_def nullish_def own_property_def)


section \<open>Decimal strings\<close>

lemma show_nat_digits: "list_all is_digit (show_nat n) \<and> show_nat n \<noteq> []"
proof (induction n rule: show_nat.induct)
  case (1 n)
  have d: "is_digit (digit_char k)" if "k < 10" for k
  proof -
    from that have "k \<in> {0,1,2,3,4,5,6,7,8,9}" by auto
    then show ?thesis by (auto simp: digit_char_def is_digit_def)
  qed
  show ?case
  proof (cases "n < 10")
    case True
    then show ?thesis by (subst show_nat.simps, subst show_nat.simps) (simp add: d)
  next
    case False
    then show ?thesis
      using 1 by (subst show_nat.simps, subst (2) show_nat.simps) (simp add: d)
  qed
qed

lemma digit_value_digit_char: "k < 10 \<Longrightarrow> digit_value (digit_char k) = Some k"
proof -
  assume "k < 10"
  then have "k \<in> {0,1,2,3,4,5,6,7,8,9}" by auto
  then show ?thesis by (auto simp: digit_char_def digit_value_def)
qed

lemma radix_value_show_nat: "radix_value 10 (show_nat n) = n"
proof (induction n rule: show_nat.induct)
  case (1 n)
  show ?case
  proof (cases "n < 10")
    case True
    then show ?thesis
      by (subst show_nat.simps) (simp add: radix_value_def digit_value_digit_char)
  next
    case False
    then have "radix_value 10 (show_nat (n div 10)) = n div 10" using 1 by simp
    then show ?thesis
      using False
      by (subst show_nat.simps) (simp add: radix_value_def digit_value_digit_char)
  qed
qed

lemma is_digit_radix: "is_digit c \<Longrightarrow> is_radix_digit 10 c \<and> \<not> is_space c \<and> c \<noteq> CHR ''+'' \<and> c \<noteq> CHR ''-'' \<and> c \<noteq> CHR ''x'' \<and> c \<noteq> CHR ''X''"
  by (auto simp: is_digit_def is_radix_digit_def digit_value_def is_space_def)

lemma parseInt_str_digits:
  assumes "list_all is_digit s" "s \<noteq> []"
  shows "parseInt_str s = JNum (int (radix_value 10 s))"
proof -
  obtain c cs where s: "s = c # cs" using assms(2) by (cases s) auto
  have c: "is_digit c" and cs: "list_all is_digit cs" using assms(1) s by auto
  have nohex: "take 2 s \<noteq> ''0x''" "take 2 s \<noteq> ''0X''"
    using cs s by (cases cs; auto dest: is_digit_radix)+
  have tw: "takeWhile (is_radix_digit 10) s = s"
    using assms(1) by (induction s) (auto dest: is_digit_radix)
  have dw: "dropWhile is_space s = s"
    using c s by (simp add: is_digit_radix)
  have sign: "hd s \<noteq> CHR ''+''" "hd s \<noteq> CHR ''-''"
    using c s by (auto dest: is_digit_radix)
  show ?thesis
    unfolding parseInt_str_def dw Let_def
    by (simp add: nohex tw sign assms(2))
qed

lemma parseInt_str_show_nat: "parseInt_str (show_nat n) = JNum (int n)"
  using show_nat_digits [of n] by (simp add: parseInt_str_digits radix_value_show_nat)


section \<open>What a successful \<open>normalize\<close> returns\<close>

lemma js_get_eq_Inr: "js_get v k = Inr x \<longleftrightarrow> \<not> nullish v \<and> x = js_prop v k"
  by (auto simp: js_get_def)

lemma js_get0_eq_Inr: "js_get0 v = Inr x \<longleftrightarrow> \<not> nullish v \<and> x = js_first v"
  by (auto simp: js_get0_def)

lemma generateId_nonempty: "generateId e \<noteq> []"
  by (simp add: generateId_def)

lemma Failure_not_Success [simp]: "createError c msg d \<noteq> Success m"
  by (simp add: createError_def)

lemma meta_inbound_success:
  assumes "meta_inbound e p entry v md = Inr (Success m)"
  shows "direction m = Inbound \<and> provider m = Meta \<and> message_id m = generateId e
    \<and> externalId m = js_prop (js_first (js_prop v ''messages'')) ''id''
    \<and> (\<exists>secs. parseInt (js_prop (js_first (js_prop v ''messages'')) ''timestamp'') = Inr secs
          \<and> js_mul secs 1000 = Inr (timestamp m))"
  using assms
  by (auto simp: meta_inbound_def bindE_eq_Inr js_get_eq_Inr js_get0_eq_Inr createSuccess_def
      Let_def)

lemma meta_status_update_success:
  assumes "meta_status_update e p v md = Inr (Success m)"
  shows "direction m = Outbound \<and> provider m = Meta \<and> message_id m = generateId e
    \<and> externalId m = js_prop (js_first (js_prop v ''statuses'')) ''id''
    \<and> (\<exists>secs. parseInt (js_prop (js_first (js_prop v ''statuses'')) ''timestamp'') = Inr secs
          \<and> js_mul secs 1000 = Inr (timestamp m))"
  using assms
  by (auto simp: meta_status_update_def bindE_eq_Inr js_get_eq_Inr js_get0_eq_Inr
      createSuccess_def)

lemma meta_extract_success:
  assumes "meta_extract e p = Inr (Success m)"
  shows "provider m = Meta \<and> message_id m = generateId e
    \<and> externalId m = js_prop (meta_record (direction m) p) ''id''
    \<and> (\<exists>secs. parseInt (js_prop (meta_record (direction m) p) ''timestamp'') = Inr secs
          \<and> js_mul secs 1000 = Inr (timestamp m))"
proof -
  from assms consider
    (inbound) entry md where
      "meta_inbound e p entry (meta_value p) md = Inr (Success m)"
    | (update) md where
      "meta_status_update e p (meta_value p) md = Inr (Success m)"
    by (auto simp: meta_extract_def bindE_eq_Inr js_get_eq_Inr js_get0_eq_Inr meta_value_def
        meta_entry_def split: if_splits)
  then show ?thesis
  proof cases
    case inbound
    from meta_inbound_success [OF this] show ?thesis
      by (simp add: meta_record_def)
  next
    case update
    from meta_status_update_success [OF this] show ?thesis
      by (simp add: meta_record_def)
  qed
qed

lemma meta_normalize_success:
  assumes "meta_normalize e p = Inr (Success m)"
  shows "meta_extract e p = Inr (Success m)"
  using assms meta_validate_total [of p]
  by (auto simp: meta_normalize_def meta_canHandle_eq split: if_splits sum.splits)

lemma evolution_normalize_success:
  assumes "evolution_normalize e p = Inr (Success m)"
  shows "evolution_extract e p = Inr (Success m) \<and> evolution_canHandle p = Inr True
    \<and> evolution_validate p = Inr True"
  using assms evolution_validate_total [of p]
  by (auto simp: evolution_normalize_def evolution_canHandle_eq split: if_splits sum.splits)

lemma zapi_normalize_success:
  assumes "zapi_normalize e p = Inr (Success m)"
  shows "zapi_extract e p = Inr (Success m) \<and> zapi_canHandle p = Inr True
    \<and> zapi_validate p = Inr True"
  using assms zapi_validate_total [of p]
  by (auto simp: zapi_normalize_def zapi_canHandle_eq split: if_splits sum.splits)

lemma zapi_success_fields:
  assumes "zapi_normalize e p = Inr (Success m)"
  shows "provider m = ZApi \<and> message_id m = generateId e
    \<and> externalId m = js_prop p ''messageId'' \<and> timestamp m = js_prop p ''momment''
    \<and> nonempty_string (js_prop p ''messageId'')
    \<and> (\<exists>n. js_prop p ''momment'' = JNum n \<and> n \<noteq> 0)"
proof -
  from zapi_normalize_success [OF assms]
  have ex: "zapi_extract e p = Inr (Success m)" and ch: "zapi_canHandle p = Inr True"
    and va: "zapi_validate p = Inr True" by simp_all
  from ch obtain kvs where p: "p = JObj kvs"
    by (auto simp: zapi_canHandle_eq isObject_iff)
  from ex have f: "provider m = ZApi" "message_id m = generateId e"
    "externalId m = js_prop p ''messageId''" "timestamp m = js_prop p ''momment''"
    by (auto simp: zapi_extract_def bindE_eq_Inr js_get_eq_Inr createSuccess_def Let_def)
  from ch have ty: "js_typeof (js_prop p ''messageId'') = ''string''"
    "js_typeof (js_prop p ''momment'') = ''number''"
    by (simp_all add: zapi_canHandle_eq)
  from va ch have tr: "truthy (js_prop p ''messageId'')" "truthy (js_prop p ''momment'')"
    by (auto simp: zapi_validate_def zapi_validate_body_def p bindE_eq_Inr
        split: if_splits sum.splits)
  have "nonempty_string (js_prop p ''messageId'')"
    using ty(1) tr(1) by (cases "js_prop p ''messageId''") (simp_all add: nonempty_string_def)
  moreover have "\<exists>n. js_prop p ''momment'' = JNum n \<and> n \<noteq> 0"
    using ty(2) tr(2) by (cases "js_prop p ''momment''") simp_all
  ultimately show ?thesis using f by simp
qed

lemma evolution_success_fields:
  assumes "evolution_normalize e p = Inr (Success m)"
  shows "provider m = Evolution \<and> message_id m = generateId e
    \<and> externalId m = js_prop (js_prop (js_prop p ''data'') ''key'') ''id''
    \<and> truthy (externalId m)
    \<and> normalizeTimestamp (js_prop (js_prop p ''data'') ''messageTimestamp'')
        = Inr (timestamp m)"
proof -
  from evolution_normalize_success [OF assms]
  have ex: "evolution_extract e p = Inr (Success m)" and ch: "evolution_canHandle p = Inr True"
    and va: "evolution_validate p = Inr True" by simp_all
  from ch obtain kvs dkvs kkvs where p: "p = JObj kvs" and d: "js_prop p ''data'' = JObj dkvs"
    and k: "js_prop (JObj dkvs) ''key'' = JObj kkvs"
    by (auto simp: evolution_canHandle_eq isObject_iff)
  from ex have f: "provider m = Evolution" "message_id m = generateId e"
    "externalId m = js_prop (js_prop (js_prop p ''data'') ''key'') ''id''"
    "normalizeTimestamp (js_prop (js_prop p ''data'') ''messageTimestamp'') = Inr (timestamp m)"
    by (auto simp: evolution_extract_def bindE_eq_Inr js_get_eq_Inr createSuccess_def
        split: if_splits)
  from va ch have "truthy (js_prop (js_prop (js_prop p ''data'') ''key'') ''id'')"
    using d k
    by (auto simp: evolution_validate_def evolution_validate_body_def p bindE_eq_Inr
        js_opt_def nullish_def split: if_splits sum.splits)
  then show ?thesis using f by simp
qed

lemma normalizeTimestamp_number:
  "normalizeTimestamp (JNum n) = Inr (JNum (if n < 10000000000 then n * 1000 else n))"
  by (simp add: normalizeTimestamp_def js_lt_def js_mul_def)


section \<open>The three examples of the test suite\<close>

lemma example_strings_nonempty: "Joao_Silva \<noteq> []" "Ola \<noteq> []" "Ola_produto \<noteq> []"
  by (simp_all add: Joao_Silva_def Ola_def Ola_produto_def)

lemma meta_example_result:
  "meta_normalize e meta_example = Inr (Success (meta_example_message e))"
  by (simp add: meta_normalize_def meta_canHandle_eq meta_example_validate meta_example_extract)
     (simp add: meta_example_def own_property_def)

lemma evolution_example_result:
  "evolution_normalize e evolutionPayload = Inr (Success (evolution_example_message e))"
proof -
  have ch: "evolution_canHandle evolutionPayload = Inr True"
    by (simp add: evolution_canHandle_eq evolutionPayload_def own_property_def)
  have va: "evolution_validate evolutionPayload = Inr True"
    unfolding evolution_validate_def ch
    by (simp add: evolution_validate_body_def evolutionPayload_def js_access_defs)
  have ex: "evolution_extract e evolutionPayload = Inr (Success (evolution_example_message e))"
    unfolding evolution_extract_def evolution_example_message_def evolutionPayload_def
    by (simp add: js_access_defs number_defs phone_defs isMessageEvent_def createSuccess_def
        normalizeTimestamp_def evolution_extractContent_def example_strings_nonempty)
  show ?thesis
    by (simp add: evolution_normalize_def ch va ex)
qed

lemma zapi_example_result:
  "zapi_normalize e zapiPayload = Inr (Success (zapi_example_message e))"
proof -
  have ch: "zapi_canHandle zapiPayload = Inr True"
    by (simp add: zapi_canHandle_eq zapiPayload_def own_property_def)
  have va: "zapi_validate zapiPayload = Inr True"
    unfolding zapi_validate_def ch
    by (simp add: zapi_validate_body_def zapiPayload_def js_access_defs)
  have ex: "zapi_extract e zapiPayload = Inr (Success (zapi_example_message e))"
    unfolding zapi_extract_def zapi_example_message_def zapiPayload_def
    by (simp add: js_access_defs number_defs phone_defs createSuccess_def zapi_mapStatus_def
        zapi_extractContent_def example_strings_nonempty)
  show ?thesis
    by (simp add: zapi_normalize_def ch va ex)
qed


section \<open>Timestamps\<close>

lemma js_mul_parsed:
  "js_mul (JNum k) 1000 = Inr t \<longleftrightarrow> t = JNum (k * 1000)"
  by (auto simp: js_mul_def)

lemma parseInt_decimal: "parseInt (JStr (show_nat k)) = Inr (JNum (int k))"
  by (simp add: parseInt_def parseInt_str_show_nat)

text \<open>
  C2: whenever \<open>normalize\<close> succeeds, the timestamp follows the rule of the provider.
  Meta: it is \<open>parseInt\<close> of the \<open>timestamp\<close> field of the record the message is built from
  (\<open>messages[0]\<close>, or \<open>statuses[0]\<close> for a status update), multiplied by 1000; for a field
  that spells the number of seconds \<open>k\<close> in decimal it is \<open>k * 1000\<close>. Z-API: it is the
  field \<open>momment\<close>, unchanged. Evolution: for a numeric \<open>messageTimestamp\<close> \<open>n\<close> it is
  \<open>n * 1000\<close> when \<open>n\<close> is below 10,000,000,000 and \<open>n\<close> itself otherwise.
\<close>

theorem timestamp_rules:
  "(meta_normalize e p = Inr (Success m) \<longrightarrow>
      (\<exists>secs. parseInt (js_prop (meta_record (direction m) p) ''timestamp'') = Inr secs
         \<and> js_mul secs 1000 = Inr (timestamp m)))
   \<and> (meta_normalize e p = Inr (Success m)
        \<and> js_prop (meta_record (direction m) p) ''timestamp'' = JStr (show_nat k) \<longrightarrow>
      timestamp m = JNum (int k * 1000))
   \<and> (zapi_normalize e p = Inr (Success m) \<longrightarrow> timestamp m = js_prop p ''momment'')
   \<and> (evolution_normalize e p = Inr (Success m)
        \<and> js_prop (js_prop p ''data'') ''messageTimestamp'' = JNum n \<longrightarrow>
      timestamp m = JNum (if n < 10000000000 then n * 1000 else n))"
proof (intro conjI impI)
  assume a: "meta_normalize e p = Inr (Success m)"
  from meta_extract_success [OF meta_normalize_success [OF a]]
  show "\<exists>secs. parseInt (js_prop (meta_record (direction m) p) ''timestamp'') = Inr secs
         \<and> js_mul secs 1000 = Inr (timestamp m)"
    by simp
next
  assume a: "meta_normalize e p = Inr (Success m)
    \<and> js_prop (meta_record (direction m) p) ''timestamp'' = JStr (show_nat k)"
  from meta_extract_success [OF meta_normalize_success [OF conjunct1 [OF a]]]
  show "timestamp m = JNum (int k * 1000)"
    using a by (auto simp: parseInt_decimal js_mul_parsed)
next
  assume "zapi_normalize e p = Inr (Success m)"
  from zapi_success_fields [OF this] show "timestamp m = js_prop p ''momment''"
    by simp
next
  assume a: "evolution_normalize e p = Inr (Success m)
    \<and> js_prop (js_prop p ''data'') ''messageTimestamp'' = JNum n"
  from evolution_success_fields [OF conjunct1 [OF a]]
  show "timestamp m = JNum (if n < 10000000000 then n * 1000 else n)"
    using a by (simp add: normalizeTimestamp_number)
qed

lemma show_nat_example: "show_nat 1677234567 = ''1677234567''"
  by (simp add: show_nat.simps digit_char_def)

theorem timestamp_rules_witness:
  "meta_normalize env0 meta_example = Inr (Success (meta_example_message env0))
   \<and> js_prop (meta_record (direction (meta_example_message env0)) meta_example) ''timestamp''
        = JStr (show_nat 1677234567)
   \<and> timestamp (meta_example_message env0) = JNum 1677234567000
   \<and> zapi_normalize env0 zapiPayload = Inr (Success (zapi_example_message env0))
   \<and> js_prop zapiPayload ''momment'' = JNum 1677234567000
   \<and> timestamp (zapi_example_message env0) = JNum 1677234567000
   \<and> evolution_normalize env0 evolutionPayload = Inr (Success (evolution_example_message env0))
   \<and> js_prop (js_prop evolutionPayload ''data'') ''messageTimestamp'' = JNum 1677234567
   \<and> timestamp (evolution_example_message env0) = JNum 1677234567000"
proof -
  have h1: "js_prop (meta_record (direction (meta_example_message env0)) meta_example)
      ''timestamp'' = JStr (show_nat 1677234567)"
    by (simp add: show_nat_example meta_example_message_def meta_record_def meta_value_def
        meta_entry_def meta_example_def own_property_def)
  have h2: "js_prop (js_prop evolutionPayload ''data'') ''messageTimestamp'' = JNum 1677234567"
    by (simp add: evolutionPayload_def own_property_def)
  have h3: "js_prop zapiPayload ''momment'' = JNum 1677234567000"
    by (simp add: zapiPayload_def own_property_def)
  show ?thesis
    using timestamp_rules [of env0 meta_example "meta_example_message env0" 1677234567]
      timestamp_rules [of env0 zapiPayload "zapi_example_message env0"]
      timestamp_rules [of env0 evolutionPayload "evolution_example_message env0" _ 1677234567]
      h1 h2 h3
    by (simp add: meta_example_result zapi_example_result evolution_example_result)
qed

section \<open>The invariant of a normalised message\<close>

lemma js_mul_positive:
  assumes "parseInt v = Inr secs" "js_mul secs 1000 = Inr t"
  shows "positive t \<longleftrightarrow> positive secs"
proof -
  from assms(1) obtain s where "secs = parseInt_str s"
    by (auto simp: parseInt_def bindE_eq_Inr)
  then have "secs = JNaN \<or> (\<exists>k. secs = JNum k)"
    by (auto simp: parseInt_str_def Let_def)
  then show ?thesis
    using assms(2) by (auto simp: js_mul_def positive_def zero_less_mult_iff)
qed

lemma truthy_string_nonempty:
  "truthy v \<Longrightarrow> js_typeof v = ''string'' \<Longrightarrow> nonempty_string v"
  by (cases v) (simp_all add: nonempty_string_def)

text \<open>
  C1, as amended: for every payload on which one of the three adapters succeeds, the
  message has a non-empty \<open>id\<close>, the provider of that adapter (never \<open>unknown\<close>) and a
  direction that is \<open>inbound\<close> or \<open>outbound\<close>. The \<open>externalId\<close> is the identifier read from
  the payload: a non-empty string for Z-API; a truthy value for Evolution, hence non-empty
  when it is a string; for Meta the unchecked \<open>id\<close> of \<open>messages[0]\<close> or \<open>statuses[0]\<close>. The
  timestamp is greater than 0 exactly when the time value of the provider is: \<open>parseInt\<close>
  of the timestamp field for Meta, a numeric \<open>messageTimestamp\<close> for Evolution, and
  \<open>momment\<close> for Z-API, where it is always a number other than 0.
\<close>

theorem success_invariant:
  "(meta_normalize e p = Inr (Success m) \<longrightarrow>
      message_id m \<noteq> [] \<and> provider m = Meta \<and> provider m \<noteq> UnknownProvider
      \<and> (direction m = Inbound \<or> direction m = Outbound)
      \<and> externalId m = js_prop (meta_record (direction m) p) ''id''
      \<and> (\<exists>secs. parseInt (js_prop (meta_record (direction m) p) ''timestamp'') = Inr secs
            \<and> (positive (timestamp m) \<longleftrightarrow> positive secs)))
   \<and> (evolution_normalize e p = Inr (Success m) \<longrightarrow>
      message_id m \<noteq> [] \<and> provider m = Evolution \<and> provider m \<noteq> UnknownProvider
      \<and> (direction m = Inbound \<or> direction m = Outbound)
      \<and> externalId m = js_prop (js_prop (js_prop p ''data'') ''key'') ''id''
      \<and> truthy (externalId m)
      \<and> (js_typeof (externalId m) = ''string'' \<longrightarrow> nonempty_string (externalId m))
      \<and> (\<forall>n. js_prop (js_prop p ''data'') ''messageTimestamp'' = JNum n \<longrightarrow>
            (positive (timestamp m) \<longleftrightarrow> 0 < n)))
   \<and> (zapi_normalize e p = Inr (Success m) \<longrightarrow>
      message_id m \<noteq> [] \<and> provider m = ZApi \<and> provider m \<noteq> UnknownProvider
      \<and> (direction m = Inbound \<or> direction m = Outbound)
      \<and> externalId m = js_prop p ''messageId'' \<and> nonempty_string (externalId m)
      \<and> timestamp m = js_prop p ''momment''
      \<and> (\<exists>n. timestamp m = JNum n \<and> n \<noteq> 0))"
proof -
  have M: "message_id m \<noteq> [] \<and> provider m = Meta \<and> provider m \<noteq> UnknownProvider
      \<and> (direction m = Inbound \<or> direction m = Outbound)
      \<and> externalId m = js_prop (meta_record (direction m) p) ''id''
      \<and> (\<exists>secs. parseInt (js_prop (meta_record (direction m) p) ''timestamp'') = Inr secs
            \<and> (positive (timestamp m) \<longleftrightarrow> positive secs))"
    if a: "meta_normalize e p = Inr (Success m)"
    using meta_extract_success [OF meta_normalize_success [OF a]]
      message_direction.exhaust [of "direction m"]
    by (auto simp: generateId_nonempty dest: js_mul_positive)
  have E: "message_id m \<noteq> [] \<and> provider m = Evolution \<and> provider m \<noteq> UnknownProvider
      \<and> (direction m = Inbound \<or> direction m = Outbound)
      \<and> externalId m = js_prop (js_prop (js_prop p ''data'') ''key'') ''id''
      \<and> truthy (externalId m)
      \<and> (js_typeof (externalId m) = ''string'' \<longrightarrow> nonempty_string (externalId m))
      \<and> (\<forall>n. js_prop (js_prop p ''data'') ''messageTimestamp'' = JNum n \<longrightarrow>
            (positive (timestamp m) \<longleftrightarrow> 0 < n))"
    if a: "evolution_normalize e p = Inr (Success m)"
  proof -
    note f = evolution_success_fields [OF a]
    have str: "nonempty_string (externalId m)" if "js_typeof (externalId m) = ''string''"
      using f that by (auto intro: truthy_string_nonempty)
    have pos: "positive (timestamp m) \<longleftrightarrow> 0 < n"
      if "js_prop (js_prop p ''data'') ''messageTimestamp'' = JNum n" for n
    proof -
      have "timestamp m = JNum (if n < 10000000000 then n * 1000 else n)"
        using f that by (simp add: normalizeTimestamp_number)
      then show ?thesis
        by (simp add: positive_def zero_less_mult_iff)
    qed
    have dir: "direction m = Inbound \<or> direction m = Outbound"
      by (cases "direction m") simp_all
    from f have f1: "provider m = Evolution" and f2: "message_id m = generateId e"
      and f3: "externalId m = js_prop (js_prop (js_prop p ''data'') ''key'') ''id''"
      and f4: "truthy (externalId m)"
      by blast+
    have f5: "message_id m \<noteq> []" "provider m \<noteq> UnknownProvider"
      by (simp_all add: f1 f2 generateId_nonempty)
    show ?thesis
      using f1 f3 f4 f5 str pos dir by blast
  qed
  have Z: "message_id m \<noteq> [] \<and> provider m = ZApi \<and> provider m \<noteq> UnknownProvider
      \<and> (direction m = Inbound \<or> direction m = Outbound)
      \<and> externalId m = js_prop p ''messageId'' \<and> nonempty_string (externalId m)
      \<and> timestamp m = js_prop p ''momment''
      \<and> (\<exists>n. timestamp m = JNum n \<and> n \<noteq> 0)"
    if a: "zapi_normalize e p = Inr (Success m)"
    using zapi_success_fields [OF a] message_direction.exhaust [of "direction m"]
    by (auto simp: generateId_nonempty)
  show ?thesis
    by (rule conjI [OF impI [OF M] conjI [OF impI [OF E] impI [OF Z]]])
qed


theorem success_invariant_witness:
  "meta_normalize env0 meta_example = Inr (Success (meta_example_message env0))
   \<and> spec_invariant (meta_example_message env0)
   \<and> evolution_normalize env0 evolutionPayload = Inr (Success (evolution_example_message env0))
   \<and> js_typeof (externalId (evolution_example_message env0)) = ''string''
   \<and> js_prop (js_prop evolutionPayload ''data'') ''messageTimestamp'' = JNum 1677234567
   \<and> spec_invariant (evolution_example_message env0)
   \<and> zapi_normalize env0 zapiPayload = Inr (Success (zapi_example_message env0))
   \<and> spec_invariant (zapi_example_message env0)"
proof -
  note M = success_invariant [THEN conjunct1, THEN mp, OF meta_example_result [of env0]]
  note E = success_invariant [THEN conjunct2, THEN conjunct1, THEN mp,
      OF evolution_example_result [of env0]]
  note Z = success_invariant [THEN conjunct2, THEN conjunct2, THEN mp,
      OF zapi_example_result [of env0]]
  have h: "js_typeof (externalId (evolution_example_message env0)) = ''string''"
    "js_prop (js_prop evolutionPayload ''data'') ''messageTimestamp'' = JNum 1677234567"
    by (simp_all add: evolution_example_message_def evolutionPayload_def own_property_def)
  have m: "spec_invariant (meta_example_message env0)"
  proof -
    from M have "message_id (meta_example_message env0) \<noteq> []"
      "provider (meta_example_message env0) \<noteq> UnknownProvider"
      "direction (meta_example_message env0) = Inbound
        \<or> direction (meta_example_message env0) = Outbound"
      by blast+
    moreover have "nonempty_string (externalId (meta_example_message env0))"
      "positive (timestamp (meta_example_message env0))"
      by (simp_all add: meta_example_message_def nonempty_string_def positive_def)
    ultimately show ?thesis by (simp add: spec_invariant_def)
  qed
  have e: "spec_invariant (evolution_example_message env0)"
  proof -
    from E have "message_id (evolution_example_message env0) \<noteq> []"
      "provider (evolution_example_message env0) \<noteq> UnknownProvider"
      "direction (evolution_example_message env0) = Inbound
        \<or> direction (evolution_example_message env0) = Outbound"
      "js_typeof (externalId (evolution_example_message env0)) = ''string''
        \<longrightarrow> nonempty_string (externalId (evolution_example_message env0))"
      "\<forall>n. js_prop (js_prop evolutionPayload ''data'') ''messageTimestamp'' = JNum n
        \<longrightarrow> (positive (timestamp (evolution_example_message env0)) \<longleftrightarrow> 0 < n)"
      by blast+
    then show ?thesis using h by (simp add: spec_invariant_def)
  qed
  have z: "spec_invariant (zapi_example_message env0)"
  proof -
    from Z have "message_id (zapi_example_message env0) \<noteq> []"
      "provider (zapi_example_message env0) \<noteq> UnknownProvider"
      "direction (zapi_example_message env0) = Inbound
        \<or> direction (zapi_example_message env0) = Outbound"
      "nonempty_string (externalId (zapi_example_message env0))"
      by blast+
    moreover have "positive (timestamp (zapi_example_message env0))"
      by (simp add: zapi_example_message_def positive_def)
    ultimately show ?thesis by (simp add: spec_invariant_def)
  qed
  show ?thesis
    using m e z h by (simp add: meta_example_result evolution_example_result zapi_example_result)
qed

text \<open>
  C1, as stated, fails: the Meta example with \<open>id: ""\<close> and \<open>timestamp: "0"\<close> is normalised
  with an empty \<open>externalId\<close> and the timestamp 0; an Evolution message with
  \<open>messageTimestamp: 0\<close> is normalised with the timestamp 0; a Z-API message with
  \<open>momment: -1\<close> is normalised with the timestamp -1. None of the three adapters checks
  that the time is positive, and the Meta adapter does not check the identifier.
\<close>

theorem success_invariant_counterexample:
  "map_option externalId (normalized (meta_normalize env0 meta_blank_id)) = Some (JStr [])
   \<and> map_option timestamp (normalized (meta_normalize env0 meta_blank_id)) = Some (JNum 0)
   \<and> map_option spec_invariant (normalized (meta_normalize env0 meta_blank_id)) = Some False
   \<and> map_option timestamp (normalized (evolution_normalize env0 evolution_zero_time))
        = Some (JNum 0)
   \<and> map_option spec_invariant (normalized (evolution_normalize env0 evolution_zero_time))
        = Some False
   \<and> map_option timestamp (normalized (zapi_normalize env0 zapi_negative_time))
        = Some (JNum (- 1))
   \<and> map_option spec_invariant (normalized (zapi_normalize env0 zapi_negative_time))
        = Some False"
proof -
  have m: "\<exists>m. meta_normalize env0 meta_blank_id = Inr (Success m)
      \<and> externalId m = JStr [] \<and> timestamp m = JNum 0"
  proof -
    have va: "meta_validate meta_blank_id = Inr True"
      by (simp add: meta_validate_def meta_validate_body_def meta_canHandle_eq meta_blank_id_def
          js_access_defs Let_def)
    have ex: "\<exists>m. meta_extract env0 meta_blank_id = Inr (Success m)
        \<and> externalId m = JStr [] \<and> timestamp m = JNum 0"
      unfolding meta_extract_def meta_inbound_def meta_blank_id_def
      by (simp add: js_access_defs number_defs phone_defs has_items_def createSuccess_def
          meta_extractContent_def meta_mapMessageType_def)
    have ch: "meta_canHandle meta_blank_id = Inr True"
      by (simp add: meta_canHandle_eq meta_blank_id_def own_property_def)
    from ex show ?thesis
      by (auto simp: meta_normalize_def ch va)
  qed
  have e: "\<exists>m. evolution_normalize env0 evolution_zero_time = Inr (Success m)
      \<and> timestamp m = JNum 0"
  proof -
    have ch: "evolution_canHandle evolution_zero_time = Inr True"
      by (simp add: evolution_canHandle_eq evolution_zero_time_def own_property_def)
    have va: "evolution_validate evolution_zero_time = Inr True"
      unfolding evolution_validate_def ch
      by (simp add: evolution_validate_body_def evolution_zero_time_def js_access_defs)
    have ex: "\<exists>m. evolution_extract env0 evolution_zero_time = Inr (Success m)
        \<and> timestamp m = JNum 0"
      unfolding evolution_extract_def evolution_zero_time_def
      by (simp add: js_access_defs number_defs phone_defs isMessageEvent_def createSuccess_def
          normalizeTimestamp_def evolution_extractContent_def)
    from ex show ?thesis
      by (auto simp: evolution_normalize_def ch va)
  qed
  have z: "\<exists>m. zapi_normalize env0 zapi_negative_time = Inr (Success m)
      \<and> timestamp m = JNum (- 1)"
  proof -
    have ch: "zapi_canHandle zapi_negative_time = Inr True"
      by (simp add: zapi_canHandle_eq zapi_negative_time_def own_property_def)
    have va: "zapi_validate zapi_negative_time = Inr True"
      unfolding zapi_validate_def ch
      by (simp add: zapi_validate_body_def zapi_negative_time_def js_access_defs)
    have ex: "\<exists>m. zapi_extract env0 zapi_negative_time = Inr (Success m)
        \<and> timestamp m = JNum (- 1)"
      unfolding zapi_extract_def zapi_negative_time_def
      by (simp add: js_access_defs number_defs phone_defs createSuccess_def zapi_mapStatus_def
          zapi_extractContent_def)
    from ex show ?thesis
      by (auto simp: zapi_normalize_def ch va)
  qed
  from m e z show ?thesis
    by (auto simp: normalized_def spec_invariant_def positive_def nonempty_string_def)
qed


section \<open>What a Meta payload is read for\<close>

lemma batch_cut: "meta_first_only meta_batch = meta_example"
  by (simp add: meta_first_only_def entries_first_only_def entry_first_only_def
      changes_first_only_def change_first_only_def value_first_only_def on_field_def on_first_def
      first_only_def meta_batch_def meta_example_def)

lemma own_property_map_same:
  "f JUndefined = JUndefined \<Longrightarrow>
   own_property (map (\<lambda>(k', x). if k' = k then (k', f x) else (k', x)) kvs) k
     = f (own_property kvs k)"
  by (induction kvs) (auto simp: own_property_def)

lemma own_property_map_other:
  "j \<noteq> k \<Longrightarrow>
   own_property (map (\<lambda>(k', x). if k' = k then (k', f x) else (k', x)) kvs) j
     = own_property kvs j"
  by (induction kvs) (auto simp: own_property_def)

lemma js_prop_on_field_same:
  "k \<noteq> ''length'' \<Longrightarrow> f JUndefined = JUndefined \<Longrightarrow>
   js_prop (on_field k f v) k = f (js_prop v k)"
  by (cases v) (simp_all add: on_field_def own_property_map_same)

lemma js_prop_on_field_other:
  "j \<noteq> k \<Longrightarrow> js_prop (on_field k f v) j = js_prop v j"
  by (cases v) (simp_all add: on_field_def own_property_map_other)

lemma nullish_on_field [simp]: "nullish (on_field k f v) = nullish v"
  by (cases v) (simp_all add: on_field_def nullish_def)

lemma nullish_first_only [simp]: "nullish (first_only v) = nullish v"
  by (cases v) (auto simp: first_only_def nullish_def split: list.split)

lemma nullish_on_first [simp]: "nullish (on_first f v) = nullish v"
  by (cases v) (auto simp: on_first_def nullish_def split: list.split)

lemma isObject_on_field [simp]: "isObject (on_field k f v) = isObject v"
  by (cases v) (simp_all add: on_field_def)

lemma on_field_nullish: "nullish v \<Longrightarrow> on_field k f v = v"
  by (auto simp: nullish_def on_field_def)

lemma first_only_undefined [simp]: "first_only JUndefined = JUndefined"
  "on_first f JUndefined = JUndefined" "on_field k f JUndefined = JUndefined"
  by (simp_all add: first_only_def on_first_def on_field_def)

lemma cut_undefined [simp]:
  "value_first_only JUndefined = JUndefined" "change_first_only JUndefined = JUndefined"
  "changes_first_only JUndefined = JUndefined" "entry_first_only JUndefined = JUndefined"
  "entries_first_only JUndefined = JUndefined"
  by (simp_all add: value_first_only_def change_first_only_def changes_first_only_def
      entry_first_only_def entries_first_only_def)

lemma cut_nullish [simp]:
  "nullish (value_first_only v) = nullish v" "nullish (change_first_only v) = nullish v"
  "nullish (changes_first_only v) = nullish v" "nullish (entry_first_only v) = nullish v"
  "nullish (entries_first_only v) = nullish v"
  by (simp_all add: value_first_only_def change_first_only_def changes_first_only_def
      entry_first_only_def entries_first_only_def)

lemma js_first_first_only [simp]: "js_first (first_only v) = js_first v"
  by (cases v) (auto simp: first_only_def split: list.split)

lemma js_first_on_first:
  "f JUndefined = JUndefined \<Longrightarrow>
   js_first (on_first f v) = (if isArray v then f (js_first v) else js_first v)"
  by (cases v) (auto simp: on_first_def split: list.split)

lemma isArray_cut [simp]: "isArray (first_only v) = isArray v" "isArray (on_first f v) = isArray v"
  by (cases v; auto simp: first_only_def on_first_def split: list.split)+

lemma empty_cut [simp]:
  "first_only v = JArr [] \<longleftrightarrow> v = JArr []" "on_first f v = JArr [] \<longleftrightarrow> v = JArr []"
  by (cases v; auto simp: first_only_def on_first_def split: list.split)+

lemma meta_canHandle_cut: "meta_canHandle (meta_first_only p) = meta_canHandle p"
  by (simp add: meta_canHandle_eq meta_first_only_def js_prop_on_field_same
      js_prop_on_field_other entries_first_only_def)


lemma js_opt_on_field_same:
  "k \<noteq> ''length'' \<Longrightarrow> f JUndefined = JUndefined \<Longrightarrow>
   js_opt (on_field k f v) k = f (js_opt v k)"
  by (simp add: js_opt_def js_prop_on_field_same)

lemma js_opt_on_field_other:
  "j \<noteq> k \<Longrightarrow> js_opt (on_field k f v) j = js_opt v j"
  by (simp add: js_opt_def js_prop_on_field_other)

lemma js_get_on_field_same:
  "k \<noteq> ''length'' \<Longrightarrow> f JUndefined = JUndefined \<Longrightarrow>
   js_get (on_field k f v) k = bindE (js_get v k) (\<lambda>x. Inr (f x))"
  by (simp add: js_get_def js_prop_on_field_same on_field_nullish)

lemma js_get_on_field_other:
  "j \<noteq> k \<Longrightarrow> js_get (on_field k f v) j = js_get v j"
  by (simp add: js_get_def js_prop_on_field_other on_field_nullish)

lemma first_only_nullish: "nullish v \<Longrightarrow> first_only v = v" "nullish v \<Longrightarrow> on_first f v = v"
  by (auto simp: nullish_def first_only_def on_first_def)

lemma js_get0_first_only [simp]: "js_get0 (first_only v) = js_get0 v"
  by (simp add: js_get0_def first_only_nullish)

lemma js_opt0_first_only [simp]: "js_opt0 (first_only v) = js_opt0 v"
  by (simp add: js_opt0_def)

lemma js_get0_on_first:
  "f JUndefined = JUndefined \<Longrightarrow>
   js_get0 (on_first f v) = (if isArray v then bindE (js_get0 v) (\<lambda>x. Inr (f x)) else js_get0 v)"
  by (simp add: js_get0_def js_first_on_first first_only_nullish)

lemma js_opt0_on_first:
  "f JUndefined = JUndefined \<Longrightarrow>
   js_opt0 (on_first f v) = (if isArray v then f (js_opt0 v) else js_opt0 v)"
  by (simp add: js_opt0_def js_first_on_first)

lemma truthy_length_first_only [simp]:
  "truthy (js_opt (first_only v) ''length'') = truthy (js_opt v ''length'')"
  by (cases v) (auto simp: first_only_def js_opt_def nullish_def split: list.split)

lemma has_items_first_only [simp]: "has_items (first_only v) = has_items v"
  by (cases v) (auto simp: first_only_def has_items_def js_get_def nullish_def js_gt_def
      split: list.split)

lemma value_cut_reads:
  "js_opt (value_first_only v) ''messages'' = first_only (js_opt v ''messages'')"
  "js_opt (value_first_only v) ''statuses'' = first_only (js_opt v ''statuses'')"
  "js_get (value_first_only v) ''messages''
     = bindE (js_get v ''messages'') (\<lambda>x. Inr (first_only x))"
  "js_get (value_first_only v) ''statuses''
     = bindE (js_get v ''statuses'') (\<lambda>x. Inr (first_only x))"
  "js_get (value_first_only v) ''metadata'' = js_get v ''metadata''"
  "js_get (value_first_only v) ''contacts'' = js_get v ''contacts''"
  by (simp_all add: value_first_only_def js_opt_on_field_same js_opt_on_field_other
      js_get_on_field_same js_get_on_field_other)

lemma meta_validate_body_cut:
  "meta_validate_body (meta_first_only p) = meta_validate_body p"
  unfolding meta_validate_body_def meta_first_only_def entries_first_only_def
  by (auto simp: js_get_on_field_same js_get0_on_first bindE_def Let_def js_or_def
      entry_first_only_def js_opt_on_field_same changes_first_only_def js_opt0_on_first
      change_first_only_def value_cut_reads split: sum.split)

lemma meta_validate_cut: "meta_validate (meta_first_only p) = meta_validate p"
  by (simp only: meta_validate_def meta_canHandle_cut meta_validate_body_cut)


lemma bindE_assoc: "bindE (bindE m g) f = bindE m (\<lambda>x. bindE (g x) f)"
  by (cases m) simp_all

lemma with_rawPayload_bindE:
  "with_rawPayload q (bindE m f) = bindE m (\<lambda>x. with_rawPayload q (f x))"
  by (cases m) (simp_all add: with_rawPayload_def)

lemma with_rawPayload_error [simp]:
  "with_rawPayload q (Inr (createError c msg d)) = Inr (createError c msg d)"
  "with_rawPayload q (Inl err) = Inl err"
  by (simp_all add: with_rawPayload_def createError_def)

lemma with_rawPayload_if:
  "with_rawPayload q (if b then x else y) = (if b then with_rawPayload q x else with_rawPayload q y)"
  by simp

lemma meta_inbound_raw:
  "with_rawPayload q (meta_inbound e p entry v md) = meta_inbound e q entry v md"
  unfolding meta_inbound_def Let_def
  by (simp add: with_rawPayload_bindE) (simp add: with_rawPayload_def createSuccess_def)

lemma meta_status_update_raw:
  "with_rawPayload q (meta_status_update e p v md) = meta_status_update e q v md"
  unfolding meta_status_update_def
  by (simp add: with_rawPayload_bindE) (simp add: with_rawPayload_def createSuccess_def)

lemma meta_inbound_cut:
  "meta_inbound e q (entry_first_only entry) v md = meta_inbound e q entry v md"
  "meta_inbound e q entry (value_first_only v) md = meta_inbound e q entry v md"
  unfolding meta_inbound_def
  by (simp_all add: value_cut_reads entry_first_only_def js_get_on_field_other bindE_assoc)

lemma meta_status_update_cut:
  "meta_status_update e q (value_first_only v) md = meta_status_update e q v md"
  unfolding meta_status_update_def
  by (simp add: value_cut_reads bindE_assoc)


lemma bindE_if: "bindE (if b then x else y) f = (if b then bindE x f else bindE y f)"
  by simp

lemma cut_reads:
  "js_get (meta_first_only p) ''entry''
     = bindE (js_get p ''entry'') (\<lambda>x. Inr (entries_first_only x))"
  "js_get0 (entries_first_only es)
     = (if isArray es then bindE (js_get0 es) (\<lambda>x. Inr (entry_first_only x)) else js_get0 es)"
  "js_get (entry_first_only en) ''changes''
     = bindE (js_get en ''changes'') (\<lambda>x. Inr (changes_first_only x))"
  "js_get0 (changes_first_only cs)
     = (if isArray cs then bindE (js_get0 cs) (\<lambda>x. Inr (change_first_only x)) else js_get0 cs)"
  "js_get (change_first_only c) ''value''
     = bindE (js_get c ''value'') (\<lambda>x. Inr (value_first_only x))"
  by (simp_all add: meta_first_only_def entries_first_only_def entry_first_only_def
      changes_first_only_def change_first_only_def js_get_on_field_same js_get0_on_first)

lemma meta_extract_cut:
  "meta_extract e (meta_first_only p) = with_rawPayload (meta_first_only p) (meta_extract e p)"
  unfolding meta_extract_def
  by (simp add: cut_reads value_cut_reads bindE_assoc bindE_if with_rawPayload_bindE
      with_rawPayload_if meta_inbound_raw meta_status_update_raw meta_inbound_cut
      meta_status_update_cut cong: if_cong)


lemma with_rawPayload_twice [simp]:
  "with_rawPayload r (with_rawPayload q x) = with_rawPayload r x"
  by (auto simp: with_rawPayload_def split: sum.split normalization_result.split)

lemma meta_normalize_cut:
  "meta_normalize e (meta_first_only p) = with_rawPayload (meta_first_only p) (meta_normalize e p)"
proof -
  obtain c where c: "meta_canHandle p = Inr c"
    by (simp add: meta_canHandle_eq)
  obtain v where v: "meta_validate p = Inr v"
    using meta_validate_total [of p] by blast
  show ?thesis
  proof (cases "c \<and> v")
    case False
    then show ?thesis
      by (auto simp: meta_normalize_def meta_canHandle_cut meta_validate_cut c v)
  next
    case True
    then have l: "meta_normalize e (meta_first_only p)
        = (case with_rawPayload (meta_first_only p) (meta_extract e p) of
             Inl err \<Rightarrow> Inr (createError PARSE_ERROR ''Erro ao processar payload da Meta''
                                (ErrorMessage err))
           | Inr r \<Rightarrow> Inr r)"
      by (simp add: meta_normalize_def meta_canHandle_cut meta_validate_cut c v meta_extract_cut)
    from True have r: "meta_normalize e p
        = (case meta_extract e p of
             Inl err \<Rightarrow> Inr (createError PARSE_ERROR ''Erro ao processar payload da Meta''
                                (ErrorMessage err))
           | Inr r \<Rightarrow> Inr r)"
      by (simp add: meta_normalize_def c v)
    show ?thesis
      unfolding l r
      by (auto simp: with_rawPayload_def createError_def
          split: sum.split normalization_result.split)
  qed
qed

lemma meta_extract_branch:
  assumes "meta_extract e p = Inr (Success m)"
  shows "has_items (js_prop (meta_value p) ''messages'')
          = Inr (direction m = Inbound)
    \<and> (direction m = Outbound \<longrightarrow> has_items (js_prop (meta_value p) ''statuses'') = Inr True)"
proof -
  from assms consider
    (inbound) entry md where
      "has_items (js_prop (meta_value p) ''messages'') = Inr True"
      "meta_inbound e p entry (meta_value p) md = Inr (Success m)"
    | (update) md where
      "has_items (js_prop (meta_value p) ''messages'') = Inr False"
      "has_items (js_prop (meta_value p) ''statuses'') = Inr True"
      "meta_status_update e p (meta_value p) md = Inr (Success m)"
    by (auto simp: meta_extract_def bindE_eq_Inr js_get_eq_Inr js_get0_eq_Inr meta_value_def
        meta_entry_def split: if_splits)
  then show ?thesis
  proof cases
    case inbound
    from meta_inbound_success [OF inbound(2)] inbound(1) show ?thesis by simp
  next
    case update
    from meta_status_update_success [OF update(3)] update(1,2) show ?thesis by simp
  qed
qed


lemma meta_batch_result:
  "meta_normalize e meta_batch
     = Inr (Success ((meta_example_message e) \<lparr> rawPayload := meta_batch \<rparr>))"
proof -
  have ch: "meta_canHandle meta_batch = Inr True"
    by (simp add: meta_canHandle_eq meta_batch_def own_property_def)
  have va: "meta_validate meta_batch = Inr True"
    unfolding meta_validate_def ch
    by (simp add: meta_validate_body_def meta_batch_def js_access_defs Let_def)
  have ex: "meta_extract e meta_batch
      = Inr (Success ((meta_example_message e) \<lparr> rawPayload := meta_batch \<rparr>))"
    unfolding meta_extract_def meta_inbound_def meta_example_message_def meta_batch_def
    by (simp add: js_access_defs number_defs phone_defs has_items_def createSuccess_def
        meta_extractContent_def meta_mapMessageType_def example_strings_nonempty)
  show ?thesis
    by (simp add: meta_normalize_def ch va ex)
qed

lemma meta_example_cut: "meta_first_only meta_example = meta_example"
  by (simp add: meta_first_only_def entries_first_only_def entry_first_only_def
      changes_first_only_def change_first_only_def value_first_only_def on_field_def on_first_def
      first_only_def meta_example_def)

lemma meta_batch_differs: "meta_batch \<noteq> meta_example"
  by (simp add: meta_batch_def meta_example_def)

text \<open>
  C10, as amended: \<open>MetaAdapter.normalize\<close> returns one result per call, and everything
  after \<open>entry[0]\<close>, after \<open>changes[0]\<close>, after \<open>messages[0]\<close> and after \<open>statuses[0]\<close> reaches
  the result through the field \<open>rawPayload\<close> only, which holds the payload as it came.
  Cutting a payload down to these first elements changes nothing else in the result, so
  two payloads with the same cut have the same result up to \<open>rawPayload\<close>. On success the
  message is built from \<open>messages[0]\<close> (direction \<open>inbound\<close>) exactly when \<open>messages\<close> has
  items, and from \<open>statuses[0]\<close> otherwise.
\<close>

theorem later_elements_only_in_rawPayload:
  "meta_normalize e (meta_first_only p) = with_rawPayload (meta_first_only p) (meta_normalize e p)
   \<and> (meta_first_only p = meta_first_only q \<longrightarrow>
        with_rawPayload JUndefined (meta_normalize e p)
          = with_rawPayload JUndefined (meta_normalize e q))
   \<and> (meta_normalize e p = Inr (Success m) \<longrightarrow>
        has_items (js_prop (meta_value p) ''messages'') = Inr (direction m = Inbound)
        \<and> externalId m = js_prop (meta_record (direction m) p) ''id'')"
proof -
  have same: "with_rawPayload JUndefined (meta_normalize e p)
      = with_rawPayload JUndefined (meta_normalize e q)"
    if eq: "meta_first_only p = meta_first_only q"
  proof -
    have "with_rawPayload JUndefined (meta_normalize e p)
        = with_rawPayload JUndefined (meta_normalize e (meta_first_only p))"
      by (simp add: meta_normalize_cut)
    also have "\<dots> = with_rawPayload JUndefined (meta_normalize e (meta_first_only q))"
      by (simp only: eq)
    also have "\<dots> = with_rawPayload JUndefined (meta_normalize e q)"
      by (simp add: meta_normalize_cut)
    finally show ?thesis .
  qed
  have built: "has_items (js_prop (meta_value p) ''messages'') = Inr (direction m = Inbound)
      \<and> externalId m = js_prop (meta_record (direction m) p) ''id''"
    if ok: "meta_normalize e p = Inr (Success m)"
    using meta_extract_branch [OF meta_normalize_success [OF ok]]
      meta_extract_success [OF meta_normalize_success [OF ok]]
    by blast
  show ?thesis
    by (rule conjI [OF meta_normalize_cut conjI [OF impI [OF same] impI [OF built]]])
qed

theorem later_elements_only_in_rawPayload_witness:
  "meta_first_only meta_batch = meta_first_only meta_example
   \<and> with_rawPayload JUndefined (meta_normalize env0 meta_batch)
        = with_rawPayload JUndefined (meta_normalize env0 meta_example)
   \<and> meta_normalize env0 meta_batch
        = Inr (Success ((meta_example_message env0) \<lparr> rawPayload := meta_batch \<rparr>))
   \<and> has_items (js_prop (meta_value meta_batch) ''messages'') = Inr True
   \<and> externalId ((meta_example_message env0) \<lparr> rawPayload := meta_batch \<rparr>)
        = JStr ''wamid.ABC''"
proof -
  have eq: "meta_first_only meta_batch = meta_first_only meta_example"
    by (simp only: batch_cut meta_example_cut)
  note w = later_elements_only_in_rawPayload
    [of env0 meta_batch meta_example "(meta_example_message env0) \<lparr> rawPayload := meta_batch \<rparr>"]
  from w eq have a: "with_rawPayload JUndefined (meta_normalize env0 meta_batch)
      = with_rawPayload JUndefined (meta_normalize env0 meta_example)"
    by blast
  from w meta_batch_result [of env0]
  have b: "has_items (js_prop (meta_value meta_batch) ''messages'')
      = Inr (direction ((meta_example_message env0) \<lparr> rawPayload := meta_batch \<rparr>) = Inbound)"
    by blast
  have c: "direction ((meta_example_message env0) \<lparr> rawPayload := meta_batch \<rparr>) = Inbound"
    "externalId ((meta_example_message env0) \<lparr> rawPayload := meta_batch \<rparr>) = JStr ''wamid.ABC''"
    by (simp_all add: meta_example_message_def)
  show ?thesis
    using eq a b c meta_batch_result [of env0] by simp
qed

text \<open>
  C10, as stated, fails: the batched payload differs from the Meta example only in what
  comes after the first entry, change and message, and the two results differ, each
  carrying its own payload in \<open>rawPayload\<close>.
\<close>

theorem later_elements_counterexample:
  "meta_first_only meta_batch = meta_example
   \<and> meta_normalize env0 meta_batch \<noteq> meta_normalize env0 meta_example
   \<and> map_option rawPayload (normalized (meta_normalize env0 meta_batch)) = Some meta_batch
   \<and> map_option rawPayload (normalized (meta_normalize env0 meta_example)) = Some meta_example"
  using meta_batch_differs
  by (simp add: batch_cut meta_batch_result meta_example_result normalized_def
      meta_example_message_def)


end
